theory Spec2Isabelle
  imports Complex_Main
begin

section \<open>Data model\<close>

text \<open>
  A shallow embedding of \<^verbatim>\<open>src/bot/bolt_login.py\<close> and \<^verbatim>\<open>src/bot/post_launch.py\<close>.
  Python floats are modelled by real numbers, Python ints by \<open>int\<close>. A decoded image is
  its shape (\<open>template.shape[:2]\<close> is \<open>(rows, cols)\<close>) and its pixel data.
\<close>

record image =
  rows :: nat
  cols :: nat
  pixels :: "nat list"

text \<open>What a file of the template directory holds: bytes that \<^verbatim>\<open>cv2.imread\<close> cannot
  decode, or an image. A name that maps to \<open>None\<close> is a file that does not exist.\<close>

datatype asset = Undecodable | Decoded image

text \<open>The tuple returned by \<^verbatim>\<open>find_template\<close>: \<open>(center_x, center_y)\<close>, or
  \<open>(x, y, w, h)\<close> when \<^verbatim>\<open>return_bounds\<close> is set.\<close>

datatype match = Center int int | Bounds int int int int

text \<open>\<^verbatim>\<open>coords[0]\<close> and \<^verbatim>\<open>coords[1]\<close>, defined on both tuple shapes.\<close>

fun coord0 :: "match \<Rightarrow> int" where
  "coord0 (Center x y) = x"
| "coord0 (Bounds x y w h) = x"

fun coord1 :: "match \<Rightarrow> int" where
  "coord1 (Center x y) = y"
| "coord1 (Bounds x y w h) = y"

datatype error = CvError | KeyError string | TypeError | ValueError | OSError | JSONDecodeError

text \<open>The result of one run of \<^verbatim>\<open>import -window root\<close> followed by \<^verbatim>\<open>cv2.imread\<close>.\<close>

datatype capture = ImportFailed | LoadFailed | Captured image

text \<open>Values of the configuration object: the JSON scalars.\<close>

datatype json = JNull | JBool bool | JNum int | JStr string

datatype json_doc = JObject "string \<rightharpoonup> json" | JOther

text \<open>The commands the scripts run to act on the desktop, in the order they are issued.\<close>

datatype event =
    MouseMove int int
  | MouseClick
  | TypeChar char
  | PressKey string
  | WindowMove string int int
  | WindowSize string int int
  | RunOathtool string

text \<open>
  Everything outside the program: the answers of the operating system, of OpenCV and of the
  random number generator. The n-th call of a capability is answered by the oracle at n, so
  every run of the program is the run of the model under some environment.
  \<^item> \<open>screen_at\<close>: the n-th screen capture;
  \<^item> \<open>asset_of\<close>: the files of \<^verbatim>\<open>TEMPLATES_DIR\<close>;
  \<^item> \<open>matchTemplate\<close>: \<^verbatim>\<open>cv2.matchTemplate(..., TM_CCOEFF_NORMED)\<close> on the grayscale
    conversions of a frame and a template: the matrix of scores, as a list of rows, or
    \<open>None\<close> when OpenCV raises;
  \<^item> \<open>mouse_at\<close>: the n-th \<^verbatim>\<open>xdotool getmouselocation\<close>, \<open>None\<close> when its output does
    not parse;
  \<^item> \<open>rand_at\<close>: the n-th raw random number;
  \<^item> \<open>search_at\<close>: return code and stripped standard output of the n-th
    \<^verbatim>\<open>xdotool search --name\<close>;
  \<^item> \<open>oathtool\<close>: the stripped output of \<^verbatim>\<open>oathtool --totp -b\<close>, \<open>None\<close> when it exits
    with a non-zero status;
  \<^item> \<open>read_json\<close>: \<^verbatim>\<open>open\<close> and \<^verbatim>\<open>json.load\<close> of a path;
  \<^item> \<open>character_name\<close>: the environment variable \<^verbatim>\<open>CHARACTER_NAME\<close>, empty when unset.
\<close>

record env =
  screen_at :: "nat \<Rightarrow> capture"
  asset_of :: "string \<Rightarrow> asset option"
  matchTemplate :: "image \<Rightarrow> image \<Rightarrow> real list list option"
  mouse_at :: "nat \<Rightarrow> (int \<times> int) option"
  rand_at :: "nat \<Rightarrow> nat"
  search_at :: "nat \<Rightarrow> string \<Rightarrow> int \<times> string"
  oathtool :: "string \<Rightarrow> string option"
  read_json :: "string \<Rightarrow> error + json_doc"
  character_name :: string

text \<open>The state of a run: how often each capability was used, and the commands issued.
  \<^verbatim>\<open>time.sleep\<close> and the log lines change nothing the program reads and are left out.\<close>

record state =
  shots :: nat
  draws :: nat
  queries :: nat
  searches :: nat
  events :: "event list"

type_synonym 'a io = "state \<Rightarrow> (error + 'a) \<times> state"

definition ret :: "'a \<Rightarrow> 'a io" where
  "ret v s = (Inr v, s)"

definition throw :: "error \<Rightarrow> 'a io" where
  "throw e s = (Inl e, s)"

definition bnd :: "'a io \<Rightarrow> ('a \<Rightarrow> 'b io) \<Rightarrow> 'b io" where
  "bnd m f s = (case m s of (Inl e, s') \<Rightarrow> (Inl e, s') | (Inr v, s') \<Rightarrow> f v s')"

definition MATCH_THRESHOLD :: real where
  "MATCH_THRESHOLD = 0.8"

definition POLL_INTERVAL :: real where
  "POLL_INTERVAL = 0.5"

section \<open>Template matching\<close>

text \<open>\<^verbatim>\<open>cv2.minMaxLoc\<close>: the largest score of the matrix and its location \<open>(x, y)\<close>, x the
  column and y the row; among equal scores the first in row-major order. An empty matrix
  has no maximum (OpenCV raises).\<close>

definition cells :: "real list list \<Rightarrow> (real \<times> nat \<times> nat) list" where
  "cells result =
     concat (map (\<lambda>(y, row). map (\<lambda>(x, v). (v, x, y)) (enumerate 0 row)) (enumerate 0 result))"

definition better :: "real \<times> nat \<times> nat \<Rightarrow> real \<times> nat \<times> nat \<Rightarrow> real \<times> nat \<times> nat" where
  "better a b = (if fst a < fst b then b else a)"

definition minMaxLoc :: "real list list \<Rightarrow> (real \<times> nat \<times> nat) option" where
  "minMaxLoc result = (case cells result of [] \<Rightarrow> None | c # cs \<Rightarrow> Some (foldl better c cs))"

text \<open>\<^verbatim>\<open>cv2.imread\<close> of a file of the template directory: \<open>None\<close> for a missing file
  as for an undecodable one.\<close>

definition imread :: "env \<Rightarrow> string \<Rightarrow> image option" where
  "imread env name = (case asset_of env name of Some (Decoded img) \<Rightarrow> Some img | _ \<Rightarrow> None)"

text \<open>\<^verbatim>\<open>find_template\<close> of \<^verbatim>\<open>bolt_login.py\<close> (lines 75-108).\<close>

definition find_template :: "env \<Rightarrow> image \<Rightarrow> string \<Rightarrow> real \<Rightarrow> bool \<Rightarrow> error + match option" where
  "find_template env screen template_name threshold return_bounds =
     (if asset_of env template_name = None then Inr None
      else case imread env template_name of
        None \<Rightarrow> Inr None
      | Some template \<Rightarrow>
          (case matchTemplate env screen template of
             None \<Rightarrow> Inl CvError
           | Some result \<Rightarrow>
               (case minMaxLoc result of
                  None \<Rightarrow> Inl CvError
                | Some (max_val, max_x, max_y) \<Rightarrow>
                    if max_val \<ge> threshold then
                      (let h = int (rows template); w = int (cols template) in
                       if return_bounds then Inr (Some (Bounds (int max_x) (int max_y) w h))
                       else Inr (Some (Center (int max_x + w div 2) (int max_y + h div 2))))
                    else Inr None)))"

text \<open>\<^verbatim>\<open>find_template\<close> of \<^verbatim>\<open>post_launch.py\<close> (lines 79-107): no test that the file
  exists.\<close>

definition pl_find_template :: "env \<Rightarrow> image \<Rightarrow> string \<Rightarrow> real \<Rightarrow> bool \<Rightarrow> error + match option" where
  "pl_find_template env screen template_name threshold return_bounds =
     (case imread env template_name of
        None \<Rightarrow> Inr None
      | Some template \<Rightarrow>
          (case matchTemplate env screen template of
             None \<Rightarrow> Inl CvError
           | Some result \<Rightarrow>
               (case minMaxLoc result of
                  None \<Rightarrow> Inl CvError
                | Some (max_val, max_x, max_y) \<Rightarrow>
                    if max_val \<ge> threshold then
                      (let h = int (rows template); w = int (cols template) in
                       if return_bounds then Inr (Some (Bounds (int max_x) (int max_y) w h))
                       else Inr (Some (Center (int max_x + w div 2) (int max_y + h div 2))))
                    else Inr None)))"

section \<open>Capabilities\<close>

text \<open>\<^verbatim>\<open>take_screenshot\<close> (lines 55-72): every failure is logged and becomes \<open>None\<close>.\<close>

fun snapshot :: "capture \<Rightarrow> image option" where
  "snapshot ImportFailed = None"
| "snapshot LoadFailed = None"
| "snapshot (Captured img) = Some img"

definition take_screenshot :: "env \<Rightarrow> image option io" where
  "take_screenshot env s = (Inr (snapshot (screen_at env (shots s))), s\<lparr>shots := Suc (shots s)\<rparr>)"

text \<open>One command of \<^verbatim>\<open>xdotool\<close> (or \<^verbatim>\<open>oathtool\<close>), run with \<^verbatim>\<open>check=False\<close>:
  its exit status is ignored. The tools are taken to be installed, so that starting one
  does not raise.\<close>

definition run :: "event \<Rightarrow> unit io" where
  "run ev s = (Inr (), s\<lparr>events := events s @ [ev]\<rparr>)"

text \<open>\<^verbatim>\<open>get_mouse_position\<close> (lines 111-124): the centre of the screen when the query fails.\<close>

definition get_mouse_position :: "env \<Rightarrow> (int \<times> int) io" where
  "get_mouse_position env s =
     (Inr (case mouse_at env (queries s) of None \<Rightarrow> (960, 540) | Some p \<Rightarrow> p),
      s\<lparr>queries := Suc (queries s)\<rparr>)"

text \<open>\<^verbatim>\<open>random.randint(a, b)\<close>: an integer of \<open>[a, b]\<close>, ValueError on an empty range.\<close>

definition randint :: "env \<Rightarrow> int \<Rightarrow> int \<Rightarrow> int io" where
  "randint env a b s =
     (if b < a then (Inl ValueError, s)
      else (Inr (a + int (rand_at env (draws s) mod nat (b - a + 1))), s\<lparr>draws := Suc (draws s)\<rparr>))"

section \<open>Input synthesis\<close>

definition bezier_curve :: "real \<Rightarrow> real \<Rightarrow> real \<Rightarrow> real \<Rightarrow> real \<Rightarrow> real" where
  "bezier_curve t p0 p1 p2 p3 =
     (1 - t) ^ 3 * p0 + 3 * (1 - t) ^ 2 * t * p1 + 3 * (1 - t) * t ^ 2 * p2 + t ^ 3 * p3"

text \<open>Python's \<^verbatim>\<open>int\<close> of a float: truncation towards zero.\<close>

definition py_int :: "real \<Rightarrow> int" where
  "py_int x = (if 0 \<le> x then \<lfloor>x\<rfloor> else \<lceil>x\<rceil>)"

text \<open>\<^verbatim>\<open>distance\<close> and \<^verbatim>\<open>steps\<close> of \<^verbatim>\<open>human_move_mouse\<close> (lines 144-145).\<close>

definition distance :: "int \<times> int \<Rightarrow> int \<times> int \<Rightarrow> real" where
  "distance start target =
     sqrt (real_of_int ((fst target - fst start) ^ 2 + (snd target - snd start) ^ 2))"

definition step_count :: "real \<Rightarrow> nat" where
  "step_count d = nat (max 10 (py_int (d / 15)))"

text \<open>The body of the loop of \<^verbatim>\<open>human_move_mouse\<close> (lines 148-153): the i-th position.\<close>

definition smoothstep :: "real \<Rightarrow> real" where
  "smoothstep t = t * t * (3 - 2 * t)"

definition waypoint ::
  "real \<times> real \<Rightarrow> real \<times> real \<Rightarrow> real \<times> real \<Rightarrow> real \<times> real \<Rightarrow> nat \<Rightarrow> nat \<Rightarrow> int \<times> int" where
  "waypoint p0 p1 p2 p3 steps i =
     (let t = smoothstep (real i / real steps)
      in (py_int (bezier_curve t (fst p0) (fst p1) (fst p2) (fst p3)),
          py_int (bezier_curve t (snd p0) (snd p1) (snd p2) (snd p3))))"

fun mousemove_each :: "(int \<times> int) list \<Rightarrow> unit io" where
  "mousemove_each [] = ret ()"
| "mousemove_each (p # ps) = bnd (run (MouseMove (fst p) (snd p))) (\<lambda>_. mousemove_each ps)"

text \<open>\<^verbatim>\<open>human_move_mouse\<close> (lines 132-159).\<close>

definition human_move_mouse :: "env \<Rightarrow> int \<Rightarrow> int \<Rightarrow> unit io" where
  "human_move_mouse env target_x target_y =
     bnd (get_mouse_position env) (\<lambda>(start_x, start_y).
     bnd (randint env (- 50) 50) (\<lambda>r1.
     bnd (randint env (- 30) 30) (\<lambda>r2.
     bnd (randint env (- 50) 50) (\<lambda>r3.
     bnd (randint env (- 30) 30) (\<lambda>r4.
       let cp1_x = real_of_int start_x + real_of_int (target_x - start_x) * 0.3 + real_of_int r1;
           cp1_y = real_of_int start_y + real_of_int (target_y - start_y) * 0.1 + real_of_int r2;
           cp2_x = real_of_int start_x + real_of_int (target_x - start_x) * 0.7 + real_of_int r3;
           cp2_y = real_of_int start_y + real_of_int (target_y - start_y) * 0.9 + real_of_int r4;
           steps = step_count (distance (start_x, start_y) (target_x, target_y))
       in bnd (mousemove_each
                 (map (waypoint (real_of_int start_x, real_of_int start_y) (cp1_x, cp1_y)
                         (cp2_x, cp2_y) (real_of_int target_x, real_of_int target_y) steps)
                    [0 ..< steps + 1]))
            (\<lambda>_. run (MouseMove target_x target_y)))))))"

text \<open>\<^verbatim>\<open>click_at\<close> (lines 162-167).\<close>

definition click_at :: "env \<Rightarrow> int \<Rightarrow> int \<Rightarrow> unit io" where
  "click_at env x y = bnd (human_move_mouse env x y) (\<lambda>_. run MouseClick)"

text \<open>\<^verbatim>\<open>click_random_within\<close> (lines 170-177).\<close>

definition click_random_within :: "env \<Rightarrow> int \<Rightarrow> int \<Rightarrow> int \<Rightarrow> int \<Rightarrow> unit io" where
  "click_random_within env x y width height =
     (let margin = 5 in
      bnd (randint env margin (max (margin + 1) (width - margin))) (\<lambda>rx.
      bnd (randint env margin (max (margin + 1) (height - margin))) (\<lambda>ry.
        click_at env (x + rx) (y + ry))))"

text \<open>\<^verbatim>\<open>type_text\<close> (lines 180-184) on a string, and on a value of the configuration:
  iterating over \<open>None\<close>, a boolean or a number raises TypeError.\<close>

fun type_text :: "string \<Rightarrow> unit io" where
  "type_text [] = ret ()"
| "type_text (c # cs) = bnd (run (TypeChar c)) (\<lambda>_. type_text cs)"

fun type_value :: "json \<Rightarrow> unit io" where
  "type_value (JStr text) = type_text text"
| "type_value v = throw TypeError"

text \<open>\<^verbatim>\<open>press_key\<close> (lines 187-190).\<close>

definition press_key :: "string \<Rightarrow> unit io" where
  "press_key key = run (PressKey key)"

section \<open>Polling\<close>

definition lift :: "error + 'a \<Rightarrow> 'a io" where
  "lift r s = (r, s)"

text \<open>\<^verbatim>\<open>wait_and_click\<close> of \<^verbatim>\<open>bolt_login.py\<close> (lines 193-213); the loop carries
  \<^verbatim>\<open>elapsed\<close>.\<close>

function wait_and_click_loop :: "env \<Rightarrow> string \<Rightarrow> real \<Rightarrow> real \<Rightarrow> bool io" where
  "wait_and_click_loop env template_name timeout elapsed s =
     (if elapsed < timeout then
        (case take_screenshot env s of
           (Inl e, s1) \<Rightarrow> (Inl e, s1)
         | (Inr None, s1) \<Rightarrow>
             wait_and_click_loop env template_name timeout (elapsed + POLL_INTERVAL) s1
         | (Inr (Some screen), s1) \<Rightarrow>
             (case find_template env screen template_name MATCH_THRESHOLD False of
                Inl e \<Rightarrow> (Inl e, s1)
              | Inr None \<Rightarrow>
                  wait_and_click_loop env template_name timeout (elapsed + POLL_INTERVAL) s1
              | Inr (Some coords) \<Rightarrow>
                  bnd (click_at env (coord0 coords) (coord1 coords)) (\<lambda>_. ret True) s1))
      else (Inr False, s))"
  by pat_completeness auto
termination
  by (relation "measure (\<lambda>(env, name, timeout, elapsed, s). nat \<lceil>(timeout - elapsed) / POLL_INTERVAL\<rceil>)")
     (auto simp: POLL_INTERVAL_def, linarith+)

declare wait_and_click_loop.simps [simp del]

definition wait_and_click :: "env \<Rightarrow> string \<Rightarrow> real \<Rightarrow> bool io" where
  "wait_and_click env template_name timeout = wait_and_click_loop env template_name timeout 0"

text \<open>\<^verbatim>\<open>wait_and_click\<close> of \<^verbatim>\<open>post_launch.py\<close> (lines 188-208), with its threshold.\<close>

function pl_wait_and_click_loop :: "env \<Rightarrow> string \<Rightarrow> real \<Rightarrow> real \<Rightarrow> real \<Rightarrow> bool io" where
  "pl_wait_and_click_loop env template_name timeout threshold elapsed s =
     (if elapsed < timeout then
        (case take_screenshot env s of
           (Inl e, s1) \<Rightarrow> (Inl e, s1)
         | (Inr None, s1) \<Rightarrow>
             pl_wait_and_click_loop env template_name timeout threshold (elapsed + POLL_INTERVAL) s1
         | (Inr (Some screen), s1) \<Rightarrow>
             (case pl_find_template env screen template_name threshold False of
                Inl e \<Rightarrow> (Inl e, s1)
              | Inr None \<Rightarrow>
                  pl_wait_and_click_loop env template_name timeout threshold
                    (elapsed + POLL_INTERVAL) s1
              | Inr (Some coords) \<Rightarrow>
                  bnd (click_at env (coord0 coords) (coord1 coords)) (\<lambda>_. ret True) s1))
      else (Inr False, s))"
  by pat_completeness auto
termination
  by (relation "measure (\<lambda>(env, name, timeout, threshold, elapsed, s).
                   nat \<lceil>(timeout - elapsed) / POLL_INTERVAL\<rceil>)")
     (auto simp: POLL_INTERVAL_def, linarith+)

declare pl_wait_and_click_loop.simps [simp del]

definition pl_wait_and_click :: "env \<Rightarrow> string \<Rightarrow> real \<Rightarrow> real \<Rightarrow> bool io" where
  "pl_wait_and_click env template_name timeout threshold =
     pl_wait_and_click_loop env template_name timeout threshold 0"

text \<open>One \<^verbatim>\<open>xdotool search --name\<close>.\<close>

definition search :: "env \<Rightarrow> string \<Rightarrow> (int \<times> string) io" where
  "search env window_name s =
     (Inr (search_at env (searches s) window_name), s\<lparr>searches := Suc (searches s)\<rparr>)"

text \<open>\<^verbatim>\<open>out.split('\n')[0]\<close>.\<close>

definition first_line :: "string \<Rightarrow> string" where
  "first_line out = takeWhile (\<lambda>c. c \<noteq> CHR 0x0A) out"

text \<open>\<^verbatim>\<open>wait_for_window\<close> (lines 224-245).\<close>

function wait_for_window_loop :: "env \<Rightarrow> string \<Rightarrow> real \<Rightarrow> real \<Rightarrow> string option io" where
  "wait_for_window_loop env window_name timeout elapsed s =
     (if elapsed < timeout then
        (case search env window_name s of
           (Inl e, s1) \<Rightarrow> (Inl e, s1)
         | (Inr (returncode, out), s1) \<Rightarrow>
             if returncode = 0 \<and> out \<noteq> [] then (Inr (Some (first_line out)), s1)
             else wait_for_window_loop env window_name timeout (elapsed + POLL_INTERVAL) s1)
      else (Inr None, s))"
  by pat_completeness auto
termination
  by (relation "measure (\<lambda>(env, name, timeout, elapsed, s). nat \<lceil>(timeout - elapsed) / POLL_INTERVAL\<rceil>)")
     (auto simp: POLL_INTERVAL_def, linarith+)

declare wait_for_window_loop.simps [simp del]

definition wait_for_window :: "env \<Rightarrow> string \<Rightarrow> real \<Rightarrow> string option io" where
  "wait_for_window env window_name timeout = wait_for_window_loop env window_name timeout 0"

section \<open>Configuration\<close>

text \<open>\<^verbatim>\<open>config[key]\<close> on the loaded object.\<close>

definition subscript :: "(string \<rightharpoonup> json) \<Rightarrow> string \<Rightarrow> error + json" where
  "subscript config key = (case config key of None \<Rightarrow> Inl (KeyError key) | Some v \<Rightarrow> Inr v)"

text \<open>\<^verbatim>\<open>load_config\<close> (lines 248-259). Subscripting a document that is not an object with a
  string raises TypeError.\<close>

definition load_config :: "env \<Rightarrow> string \<Rightarrow> error + (string \<rightharpoonup> json)" where
  "load_config env config_path =
     (case read_json env config_path of
        Inl e \<Rightarrow> Inl e
      | Inr JOther \<Rightarrow> Inl TypeError
      | Inr (JObject config) \<Rightarrow>
          (case subscript config ''username'' of Inl e \<Rightarrow> Inl e | Inr _ \<Rightarrow>
          (case subscript config ''password'' of Inl e \<Rightarrow> Inl e | Inr _ \<Rightarrow>
          (case subscript config ''totpSecret'' of Inl e \<Rightarrow> Inl e | Inr _ \<Rightarrow>
          (case subscript config ''characterName'' of Inl e \<Rightarrow> Inl e | Inr _ \<Rightarrow>
             Inr config)))))"

text \<open>Python's truth value of a configuration value (\<^verbatim>\<open>if totp_secret:\<close>).\<close>

fun truthy :: "json \<Rightarrow> bool" where
  "truthy JNull = False"
| "truthy (JBool b) = b"
| "truthy (JNum n) = (n \<noteq> 0)"
| "truthy (JStr text) = (text \<noteq> [])"

section \<open>The login flow\<close>

text \<open>The full-login path of \<^verbatim>\<open>main\<close> from the dismissal of the disclaimer to the submission
  of the account identifier (lines 308-365); the value is \<^verbatim>\<open>password\<close>.\<close>

definition full_login_enter_email :: "env \<Rightarrow> (string \<rightharpoonup> json) \<Rightarrow> json io" where
  "full_login_enter_email env config =
     bnd (wait_and_click env ''i_understand_button.png'' 5) (\<lambda>_.
     bnd (wait_and_click env ''login_button.png'' 10) (\<lambda>_.
     bnd (take_screenshot env) (\<lambda>screen.
     bnd (case screen of
            None \<Rightarrow> ret ()
          | Some scr \<Rightarrow>
              bnd (lift (find_template env scr ''cloudflare_human_checkbox.png''
                           (MATCH_THRESHOLD * 0.75) True)) (\<lambda>bounds.
                case bounds of
                  None \<Rightarrow> ret ()
                | Some (Bounds x y w h) \<Rightarrow> click_random_within env x y w h
                | Some (Center x y) \<Rightarrow> throw ValueError)) (\<lambda>_.
     bnd (lift (subscript config ''username'')) (\<lambda>email.
     bnd (lift (subscript config ''password'')) (\<lambda>password.
     bnd (type_value email) (\<lambda>_.
     bnd (press_key ''Return'') (\<lambda>_.
       ret password))))))))"

text \<open>The rest of the full-login path (lines 367-428): the check for the error page, the
  password, the second factor. The value is \<open>Some code\<close> where \<^verbatim>\<open>main\<close> returns \<open>code\<close>,
  and \<open>None\<close> where it goes on to step 7.\<close>

definition full_login_after_email :: "env \<Rightarrow> (string \<rightharpoonup> json) \<Rightarrow> json \<Rightarrow> int option io" where
  "full_login_after_email env config password =
     bnd (take_screenshot env) (\<lambda>screen.
     bnd (case screen of
            None \<Rightarrow> ret False
          | Some scr \<Rightarrow>
              bnd (lift (find_template env scr ''error_login_cant_open_page.png''
                           MATCH_THRESHOLD False)) (\<lambda>found. ret (found \<noteq> None))) (\<lambda>cant_open.
       if cant_open then ret (Some 1)
       else
         bnd (type_value password) (\<lambda>_.
         bnd (press_key ''Return'') (\<lambda>_.
         bnd (lift (subscript config ''totpSecret'')) (\<lambda>totp_secret.
           if truthy totp_secret then
             bnd (wait_and_click env ''login_authenticator_app_button.png'' 10) (\<lambda>_.
               case totp_secret of
                 JStr secret \<Rightarrow>
                   bnd (run (RunOathtool secret)) (\<lambda>_.
                     case oathtool env secret of
                       None \<Rightarrow> ret (Some 1)
                     | Some totp_code \<Rightarrow>
                         bnd (type_text totp_code) (\<lambda>_.
                         bnd (press_key ''Return'') (\<lambda>_.
                           ret None)))
               | _ \<Rightarrow> throw TypeError)
           else ret None)))))"

text \<open>The persisted-session path (lines 430-494).\<close>

definition persisted_session :: "env \<Rightarrow> unit io" where
  "persisted_session env =
     bnd (take_screenshot env) (\<lambda>screen.
     bnd (case screen of
            None \<Rightarrow> ret None
          | Some scr \<Rightarrow>
              bnd (lift (find_template env scr ''select_account_button.png''
                           MATCH_THRESHOLD False)) (\<lambda>coords.
                case coords of
                  None \<Rightarrow> ret None
                | Some c \<Rightarrow> bnd (click_at env (coord0 c) (coord1 c)) (\<lambda>_. ret (Some c))))
         (\<lambda>select_account_coords.
     bnd (wait_and_click env ''user_select_label.png'' 10) (\<lambda>_.
     bnd (take_screenshot env) (\<lambda>screen.
     bnd (case screen of
            None \<Rightarrow> ret ()
          | Some scr \<Rightarrow>
              bnd (lift (find_template env scr ''user_select_header.png''
                           MATCH_THRESHOLD False)) (\<lambda>coords.
                case coords of
                  None \<Rightarrow> ret ()
                | Some c \<Rightarrow> click_at env (coord0 c) (coord1 c + 20))) (\<lambda>_.
       case select_account_coords of
         None \<Rightarrow> ret ()
       | Some c \<Rightarrow> click_at env (coord0 c) (coord1 c))))))"

text \<open>Steps 7, 7a and 8 and the wait for the game window (lines 496-580); the value is the
  result of \<^verbatim>\<open>main\<close>.\<close>

definition select_character_and_play :: "env \<Rightarrow> int io" where
  "select_character_and_play env =
     bnd (take_screenshot env) (\<lambda>screen.
     bnd (case screen of
            None \<Rightarrow> ret ()
          | Some scr \<Rightarrow>
              bnd (lift (find_template env scr ''character_select_label.png''
                           MATCH_THRESHOLD False)) (\<lambda>coords.
                case coords of
                  None \<Rightarrow> ret ()
                | Some c \<Rightarrow> click_at env (coord0 c) (coord1 c + 30))) (\<lambda>_.
     bnd (take_screenshot env) (\<lambda>screen.
     bnd (case screen of
            None \<Rightarrow> ret ()
          | Some scr \<Rightarrow>
              bnd (lift (find_template env scr ''character_select_header.png''
                           MATCH_THRESHOLD False)) (\<lambda>coords.
                case coords of
                  None \<Rightarrow> ret ()
                | Some c \<Rightarrow> click_at env (coord0 c) (coord1 c + 30))) (\<lambda>_.
     bnd (wait_and_click env ''play_button.png'' 10) (\<lambda>_.
     bnd (wait_for_window env ''RuneLite'' 300) (\<lambda>runelite.
       if runelite \<noteq> None \<and> runelite \<noteq> Some [] then
         bnd (search env ''RuneLite'') (\<lambda>(returncode, out).
           let window_id = first_line out in
           if window_id \<noteq> [] then
             bnd (run (WindowMove window_id 0 0)) (\<lambda>_.
             bnd (run (WindowSize window_id 1920 1080)) (\<lambda>_.
               ret 0))
           else ret 0)
       else ret 1))))))"

text \<open>\<^verbatim>\<open>main\<close> from step 1 on (lines 302-580), with the loaded \<^verbatim>\<open>CONFIG\<close>.\<close>

definition login_flow :: "env \<Rightarrow> (string \<rightharpoonup> json) \<Rightarrow> int io" where
  "login_flow env config =
     bnd (take_screenshot env) (\<lambda>screen.
     bnd (case screen of
            None \<Rightarrow> ret False
          | Some scr \<Rightarrow>
              bnd (lift (find_template env scr ''i_understand_button.png''
                           MATCH_THRESHOLD False)) (\<lambda>found. ret (found \<noteq> None))) (\<lambda>need_login.
       if need_login then
         bnd (full_login_enter_email env config) (\<lambda>password.
         bnd (full_login_after_email env config password) (\<lambda>code.
           case code of
             Some c \<Rightarrow> ret c
           | None \<Rightarrow> select_character_and_play env))
       else
         bnd (persisted_session env) (\<lambda>_. select_character_and_play env)))"

text \<open>\<^verbatim>\<open>main\<close> of \<^verbatim>\<open>bolt_login.py\<close> (lines 262-580), on the path given by \<^verbatim>\<open>--config\<close>.\<close>

definition main :: "env \<Rightarrow> string \<Rightarrow> int io" where
  "main env config_path =
     bnd (lift (load_config env config_path)) (\<lambda>config.
     bnd (search env ''RuneLite'') (\<lambda>(returncode, out).
       if returncode = 0 \<and> out \<noteq> [] then ret 0
       else
         bnd (wait_for_window env ''Bolt'' 60) (\<lambda>bolt_window.
           if bolt_window = None \<or> bolt_window = Some [] then ret 1
           else login_flow env config)))"

section \<open>The post-launch flow\<close>

text \<open>The loop of phase 2.5 (lines 270-281), with the number of attempts left.\<close>

fun lobby_attempts :: "env \<Rightarrow> nat \<Rightarrow> unit io" where
  "lobby_attempts env 0 = ret ()"
| "lobby_attempts env (Suc n) =
     bnd (take_screenshot env) (\<lambda>screen.
       case screen of
         None \<Rightarrow> lobby_attempts env n
       | Some scr \<Rightarrow>
           bnd (lift (pl_find_template env scr ''lobby_click_to_play.png'' 0.7 False)) (\<lambda>coords.
             case coords of
               None \<Rightarrow> lobby_attempts env n
             | Some c \<Rightarrow> click_at env (coord0 c) (coord1 c)))"

text \<open>\<^verbatim>\<open>main\<close> of \<^verbatim>\<open>post_launch.py\<close> (lines 219-318).\<close>

definition pl_main :: "env \<Rightarrow> int io" where
  "pl_main env =
     bnd (take_screenshot env) (\<lambda>screen.
     bnd (case screen of
            None \<Rightarrow> ret ()
          | Some scr \<Rightarrow>
              bnd (lift (pl_find_template env scr ''license_accept_button.png''
                           MATCH_THRESHOLD False)) (\<lambda>coords.
                case coords of
                  None \<Rightarrow> ret ()
                | Some c \<Rightarrow> click_at env (coord0 c) (coord1 c))) (\<lambda>_.
     bnd (pl_wait_and_click env ''runelite_play_button.png'' 30 0.6) (\<lambda>_.
     bnd (lobby_attempts env 6) (\<lambda>_.
     bnd (if character_name env \<noteq> [] then
            bnd (take_screenshot env) (\<lambda>screen.
              case screen of
                None \<Rightarrow> ret ()
              | Some scr \<Rightarrow>
                  bnd (lift (pl_find_template env scr ''name_entry_field.png''
                               MATCH_THRESHOLD False)) (\<lambda>coords.
                    case coords of
                      None \<Rightarrow> ret ()
                    | Some c \<Rightarrow>
                        bnd (click_at env (coord0 c) (coord1 c)) (\<lambda>_.
                        bnd (type_text (character_name env)) (\<lambda>_.
                        bnd (pl_wait_and_click env ''name_confirm_button.png'' 5
                               MATCH_THRESHOLD) (\<lambda>confirmed.
                          if confirmed then ret () else press_key ''Return'')))))
          else ret ()) (\<lambda>_.
       ret 0)))))"

section \<open>Vocabulary of the properties\<close>

text \<open>What one polling attempt sees on the n-th capture: nothing when the capture failed,
  the result of the template lookup otherwise (lines 202-205 and their copies).\<close>

definition sighting :: "env \<Rightarrow> string \<Rightarrow> real \<Rightarrow> nat \<Rightarrow> error + match option" where
  "sighting env template_name threshold n =
     (case snapshot (screen_at env n) of
        None \<Rightarrow> Inr None
      | Some screen \<Rightarrow> find_template env screen template_name threshold False)"

text \<open>The commands of the credential and second-factor steps: typing, key presses and the
  generation of the one-time code.\<close>

fun credential_step :: "event \<Rightarrow> bool" where
  "credential_step (TypeChar c) = True"
| "credential_step (PressKey k) = True"
| "credential_step (RunOathtool secret) = True"
| "credential_step ev = False"

text \<open>The command \<^verbatim>\<open>xdotool mousemove\<close> to a point.\<close>

definition move_to :: "int \<times> int \<Rightarrow> event" where
  "move_to p = MouseMove (fst p) (snd p)"

text \<open>OpenCV raises on no pair of images.\<close>

definition cv_total :: "env \<Rightarrow> bool" where
  "cv_total env = (\<forall>screen template. \<exists>result.
     matchTemplate env screen template = Some result \<and> concat result \<noteq> [])"

text \<open>A computation that issues only commands satisfying \<open>P\<close> and raises only errors of \<open>E\<close>.\<close>

definition emits :: "error set \<Rightarrow> (event \<Rightarrow> bool) \<Rightarrow> 'a io \<Rightarrow> bool" where
  "emits E P m =
     (\<forall>s. (\<exists>es. events (snd (m s)) = events s @ es \<and> list_all P es)
        \<and> (\<forall>e. fst (m s) = Inl e \<longrightarrow> e \<in> E))"

text \<open>The position \<^verbatim>\<open>human_move_mouse\<close> starts from in a state: the answer of
  \<^verbatim>\<open>get_mouse_position\<close>.\<close>

definition start_of :: "env \<Rightarrow> state \<Rightarrow> int \<times> int" where
  "start_of env s = (case mouse_at env (queries s) of None \<Rightarrow> (960, 540) | Some p \<Rightarrow> p)"

section \<open>Example environments\<close>

definition frame :: image where
  "frame = \<lparr>rows = 1080, cols = 1920, pixels = []\<rparr>"

definition button :: image where
  "button = \<lparr>rows = 20, cols = 60, pixels = []\<rparr>"

definition faint :: image where
  "faint = \<lparr>rows = 10, cols = 10, pixels = []\<rparr>"

definition demo_config :: "string \<rightharpoonup> json" where
  "demo_config = [''username'' \<mapsto> JStr ''a@b.c'', ''password'' \<mapsto> JStr ''pw'',
                  ''totpSecret'' \<mapsto> JStr [], ''characterName'' \<mapsto> JStr ''Zezima'']"

text \<open>Every capture succeeds; \<^verbatim>\<open>missing.png\<close> does not exist, \<^verbatim>\<open>broken.png\<close> does not decode,
  \<^verbatim>\<open>hidden.png\<close> scores at most 0.2 everywhere, every other template scores 0.95 at (1, 0).\<close>

definition demo_env :: env where
  "demo_env =
     \<lparr>screen_at = (\<lambda>n. Captured frame),
      asset_of = (\<lambda>name. if name = ''missing.png'' then None
                          else if name = ''broken.png'' then Some Undecodable
                          else if name = ''hidden.png'' then Some (Decoded faint)
                          else Some (Decoded button)),
      matchTemplate = (\<lambda>screen template.
                         if rows template = 10 then Some [[0.1, 0.2]]
                         else Some [[0.1, 0.95], [0.3, 0.2]]),
      mouse_at = (\<lambda>n. Some (0, 0)),
      rand_at = (\<lambda>n. 0),
      search_at = (\<lambda>n name. if name = ''Bolt'' then (0, ''4194305'') else (1, [])),
      oathtool = (\<lambda>secret. Some ''123456''),
      read_json = (\<lambda>path. Inr (JObject demo_config)),
      character_name = ''Zezima''\<rparr>"

definition start_state :: state where
  "start_state = \<lparr>shots = 0, draws = 0, queries = 0, searches = 0, events = []\<rparr>"

text \<open>A configuration with the account identifier and the credential secret only.\<close>

definition bare_config :: "string \<rightharpoonup> json" where
  "bare_config = [''username'' \<mapsto> JStr ''a@b.c'', ''password'' \<mapsto> JStr ''pw'']"

definition bare_env :: env where
  "bare_env = demo_env\<lparr>read_json := (\<lambda>path. Inr (JObject bare_config))\<rparr>"

text \<open>No template file exists: nothing is ever detected.\<close>

definition quiet_env :: env where
  "quiet_env = demo_env\<lparr>asset_of := (\<lambda>name. None)\<rparr>"

text \<open>The first two captures fail.\<close>

definition late_env :: env where
  "late_env = demo_env\<lparr>screen_at := (\<lambda>n. if n < 2 then ImportFailed else Captured frame)\<rparr>"

text \<open>Every capture fails.\<close>

definition blind_env :: env where
  "blind_env = demo_env\<lparr>screen_at := (\<lambda>n. ImportFailed)\<rparr>"

section \<open>Template matching: the best score decides\<close>

lemma find_template_eq_pl: "pl_find_template env screen name threshold rb = find_template env screen name threshold rb"
  by (simp add: find_template_def pl_find_template_def imread_def)

lemma cells_iff:
  "(v, x, y) \<in> set (cells result) \<longleftrightarrow> y < length result \<and> x < length (result ! y) \<and> result ! y ! x = v"
proof
  assume "(v, x, y) \<in> set (cells result)"
  then show "y < length result \<and> x < length (result ! y) \<and> result ! y ! x = v"
    by (auto simp: cells_def in_set_enumerate_eq)
next
  assume h: "y < length result \<and> x < length (result ! y) \<and> result ! y ! x = v"
  then have 1: "(y, result ! y) \<in> set (enumerate 0 result)"
    by (simp add: in_set_enumerate_eq)
  from h have 2: "(x, v) \<in> set (enumerate 0 (result ! y))"
    by (simp add: in_set_enumerate_eq)
  from 1 2 show "(v, x, y) \<in> set (cells result)"
    unfolding cells_def by force
qed

lemma fst_cells: "fst ` set (cells result) = set (concat result)"
proof (rule set_eqI)
  fix v
  have "v \<in> fst ` set (cells result) \<longleftrightarrow> (\<exists>x y. (v, x, y) \<in> set (cells result))"
    by force
  also have "\<dots> \<longleftrightarrow> (\<exists>y < length result. \<exists>x < length (result ! y). result ! y ! x = v)"
    by (auto simp: cells_iff)
  also have "\<dots> \<longleftrightarrow> v \<in> set (concat result)"
    unfolding set_concat by (metis (no_types, lifting) UN_iff in_set_conv_nth)
  finally show "v \<in> fst ` set (cells result) \<longleftrightarrow> v \<in> set (concat result)" .
qed

lemma foldl_better_mem: "foldl better c cs \<in> set (c # cs)"
  by (induction cs arbitrary: c) (auto simp: better_def)

lemma foldl_better_ge: "\<forall>a \<in> set (c # cs). fst a \<le> fst (foldl better c cs)"
proof (induction cs arbitrary: c)
  case Nil then show ?case by simp
next
  case (Cons d ds)
  have mono: "fst c \<le> fst (better c d)" "fst d \<le> fst (better c d)" by (auto simp: better_def)
  have ih: "\<forall>a \<in> set (better c d # ds). fst a \<le> fst (foldl better (better c d) ds)"
    by (rule Cons.IH)
  then have "fst (better c d) \<le> fst (foldl better (better c d) ds)" by simp
  with ih mono show ?case by (auto intro: order_trans)
qed

lemma minMaxLoc_None: "minMaxLoc result = None \<longleftrightarrow> concat result = []"
proof -
  have "cells result = [] \<longleftrightarrow> concat result = []"
    using fst_cells[of result] by (metis image_is_empty set_empty)
  then show ?thesis unfolding minMaxLoc_def by (cases "cells result") auto
qed

lemma minMaxLoc_Some:
  assumes "minMaxLoc result = Some (m, x, y)"
  shows "y < length result \<and> x < length (result ! y) \<and> result ! y ! x = m \<and> m = Max (set (concat result))"
proof -
  obtain c cs where cs: "cells result = c # cs" and f: "foldl better c cs = (m, x, y)"
    using assms by (auto simp: minMaxLoc_def split: list.splits)
  have mem: "(m, x, y) \<in> set (cells result)" using foldl_better_mem[of c cs] cs f by simp
  have ge: "\<And>a. a \<in> set (cells result) \<Longrightarrow> fst a \<le> m" using foldl_better_ge[of c cs] cs f by auto
  have "m \<in> set (concat result)" using mem fst_cells[of result] by force
  moreover have "\<And>v. v \<in> set (concat result) \<Longrightarrow> v \<le> m" using ge fst_cells[of result] by force
  ultimately have "Max (set (concat result)) = m" by (intro Max_eqI) auto
  with mem show ?thesis by (simp add: cells_iff)
qed

text \<open>
  C3. For every frame and every decodable template on which OpenCV yields a score matrix
  with at least one entry, \<^verbatim>\<open>find_template\<close> accepts exactly when the largest score of
  the whole matrix is at least the threshold. It then reports one match, at a location
  \<open>(x, y)\<close> that holds this largest score: in centre mode the point
  \<open>(x + w div 2, y + h div 2)\<close>, in bounds mode \<open>(x, y, w, h)\<close>, with \<open>w\<close> and \<open>h\<close> the
  template's width and height. Below the threshold it returns the not-found value. The
  result holds at most one match by its type.
\<close>

theorem find_template_accepts_best_score:
  assumes "asset_of env name = Some (Decoded template)"
    and "matchTemplate env screen template = Some result"
    and "concat result \<noteq> []"
  shows "\<exists>x y. y < length result \<and> x < length (result ! y)
           \<and> result ! y ! x = Max (set (concat result))
           \<and> find_template env screen name threshold return_bounds =
               Inr (if threshold \<le> Max (set (concat result))
                    then Some (if return_bounds
                               then Bounds (int x) (int y) (int (cols template)) (int (rows template))
                               else Center (int x + int (cols template) div 2)
                                      (int y + int (rows template) div 2))
                    else None)"
proof -
  obtain m x y where mm: "minMaxLoc result = Some (m, x, y)"
    using assms(3) minMaxLoc_None[of result] by (cases "minMaxLoc result") auto
  from minMaxLoc_Some[OF mm] assms(1,2) mm show ?thesis
    by (intro exI[of _ x] exI[of _ y]) (simp add: find_template_def imread_def Let_def)
qed

text \<open>The theorem at a 2 x 2 score matrix whose largest entry 0.95 lies at (1, 0).\<close>

theorem find_template_accepts_best_score_witness:
  "\<exists>x y. y < length [[0.1, 0.95], [0.3, 0.2::real]] \<and> x < length ([[0.1, 0.95], [0.3, 0.2::real]] ! y)
      \<and> [[0.1, 0.95], [0.3, 0.2::real]] ! y ! x = Max (set (concat [[0.1, 0.95], [0.3, 0.2::real]]))
      \<and> find_template demo_env frame ''play_button.png'' MATCH_THRESHOLD False =
            Inr (if MATCH_THRESHOLD \<le> Max (set (concat [[0.1, 0.95], [0.3, 0.2::real]]))
                 then Some (if False
                            then Bounds (int x) (int y) (int (cols button)) (int (rows button))
                            else Center (int x + int (cols button) div 2) (int y + int (rows button) div 2))
                 else None)"
proof -
  have 1: "asset_of demo_env ''play_button.png'' = Some (Decoded button)" by (simp add: demo_env_def)
  have 2: "matchTemplate demo_env frame button = Some [[0.1, 0.95], [0.3, 0.2]]"
    by (simp add: demo_env_def button_def)
  have 3: "concat [[0.1, 0.95], [0.3, 0.2::real]] \<noteq> []" by simp
  show ?thesis by (rule find_template_accepts_best_score[OF 1 2 3])
qed

lemma below_threshold:
  assumes "imread env name = Some template"
    and "matchTemplate env screen template = Some result"
    and "concat result \<noteq> []" and "Max (set (concat result)) < threshold"
  shows "find_template env screen name threshold rb = Inr None"
proof -
  obtain m x y where mm: "minMaxLoc result = Some (m, x, y)"
    using assms(3) minMaxLoc_None[of result] by (cases "minMaxLoc result") auto
  have "m = Max (set (concat result))" using minMaxLoc_Some[OF mm] by simp
  with assms(4) have lt: "\<not> threshold \<le> m" by linarith
  have ex: "asset_of env name \<noteq> None"
    using assms(1) by (auto simp: imread_def split: option.splits)
  show ?thesis using assms(1,2) mm lt ex by (simp add: find_template_def)
qed

text \<open>
  C1, as amended. A template file that is missing or that does not decode makes
  \<^verbatim>\<open>find_template\<close> (in both scripts) return the not-found value \<open>None\<close>, the very value
  it returns for a decodable template whose best score is below the threshold: the
  returned value does not tell an asset failure from a template that is not on screen.
\<close>

theorem asset_failure_returns_not_found:
  assumes "asset_of env missing = None \<or> asset_of env missing = Some Undecodable"
    and "asset_of env hidden = Some (Decoded template)"
    and "matchTemplate env screen template = Some result"
    and "concat result \<noteq> []" and "Max (set (concat result)) < threshold"
  shows "find_template env screen missing threshold return_bounds = Inr None
       \<and> find_template env screen hidden threshold return_bounds = Inr None
       \<and> pl_find_template env screen missing threshold return_bounds = Inr None
       \<and> pl_find_template env screen hidden threshold return_bounds = Inr None"
proof -
  have m: "find_template env screen missing threshold return_bounds = Inr None"
    using assms(1) by (auto simp: find_template_def imread_def)
  have "imread env hidden = Some template" using assms(2) by (simp add: imread_def)
  then have h: "find_template env screen hidden threshold return_bounds = Inr None"
    using assms(3-5) by (rule below_threshold)
  from m h show ?thesis by (simp add: find_template_eq_pl)
qed

text \<open>The theorem at the missing and the low-scoring template of the example.\<close>

theorem asset_failure_returns_not_found_witness:
  "find_template demo_env frame ''missing.png'' MATCH_THRESHOLD False = Inr None
   \<and> find_template demo_env frame ''hidden.png'' MATCH_THRESHOLD False = Inr None
   \<and> pl_find_template demo_env frame ''missing.png'' MATCH_THRESHOLD False = Inr None
   \<and> pl_find_template demo_env frame ''hidden.png'' MATCH_THRESHOLD False = Inr None"
proof -
  have 1: "asset_of demo_env ''missing.png'' = None \<or> asset_of demo_env ''missing.png'' = Some Undecodable"
    by (simp add: demo_env_def)
  have 2: "asset_of demo_env ''hidden.png'' = Some (Decoded faint)" by (simp add: demo_env_def)
  have 3: "matchTemplate demo_env frame faint = Some [[0.1, 0.2]]"
    by (simp add: demo_env_def faint_def)
  have 4: "concat [[0.1, 0.2::real]] \<noteq> []" by simp
  have 5: "Max (set (concat [[0.1, 0.2::real]])) < MATCH_THRESHOLD"
    by (simp add: MATCH_THRESHOLD_def)
  show ?thesis by (rule asset_failure_returns_not_found[OF 1 2 3 4 5])
qed

text \<open>
  C1 as stated fails: for a missing file, an undecodable file and a template that is
  simply not visible, the values returned to the caller do not differ.
\<close>

theorem asset_failure_indistinguishable:
  "asset_of demo_env ''missing.png'' = None
   \<and> asset_of demo_env ''broken.png'' = Some Undecodable
   \<and> asset_of demo_env ''hidden.png'' = Some (Decoded faint)
   \<and> \<not> (find_template demo_env frame ''missing.png'' MATCH_THRESHOLD False
          \<noteq> find_template demo_env frame ''hidden.png'' MATCH_THRESHOLD False)
   \<and> \<not> (find_template demo_env frame ''broken.png'' MATCH_THRESHOLD False
          \<noteq> find_template demo_env frame ''hidden.png'' MATCH_THRESHOLD False)
   \<and> \<not> (pl_find_template demo_env frame ''missing.png'' MATCH_THRESHOLD False
          \<noteq> pl_find_template demo_env frame ''hidden.png'' MATCH_THRESHOLD False)"
  by (simp add: demo_env_def find_template_def pl_find_template_def imread_def faint_def
      minMaxLoc_def cells_def better_def MATCH_THRESHOLD_def)

section \<open>Pointer motion and clicks\<close>

lemma mousemove_each_run:
  "mousemove_each ps s = (Inr (), s\<lparr>events := events s @ map move_to ps\<rparr>)"
  by (induction ps arbitrary: s) (auto simp: ret_def bnd_def run_def move_to_def)

lemma randint_run:
  "a \<le> b \<Longrightarrow> randint env a b s =
     (Inr (a + int (rand_at env (draws s) mod nat (b - a + 1))), s\<lparr>draws := Suc (draws s)\<rparr>)"
  by (simp add: randint_def)

lemma randint_range:
  "a \<le> b \<Longrightarrow> \<exists>r. a \<le> r \<and> r \<le> b \<and> randint env a b s = (Inr r, s\<lparr>draws := Suc (draws s)\<rparr>)"
proof -
  assume ab: "a \<le> b"
  have "rand_at env (draws s) mod nat (b - a + 1) < nat (b - a + 1)" using ab by simp
  then have "int (rand_at env (draws s) mod nat (b - a + 1)) \<le> b - a" using ab by linarith
  then show ?thesis using ab by (simp add: randint_def)
qed

lemma py_int_of_int [simp]: "py_int (real_of_int n) = n"
  by (simp add: py_int_def)

lemma waypoint_first: "waypoint (real_of_int sx, real_of_int sy) p1 p2 p3 steps 0 = (sx, sy)"
  by (simp add: waypoint_def smoothstep_def bezier_curve_def)

lemma waypoint_last: "0 < steps \<Longrightarrow> waypoint p0 p1 p2 (real_of_int tx, real_of_int ty) steps steps = (tx, ty)"
  by (simp add: waypoint_def smoothstep_def bezier_curve_def)

lemma step_count_pos: "10 \<le> step_count d"
  by (simp add: step_count_def)

lemma human_move_mouse_run:
  "\<exists>ws. human_move_mouse env tx ty s =
      (Inr (), s\<lparr>queries := Suc (queries s), draws := draws s + 4,
                 events := events s @ map move_to ws @ [MouseMove tx ty]\<rparr>)
     \<and> length ws = step_count (distance (start_of env s) (tx, ty)) + 1
     \<and> hd ws = start_of env s \<and> last ws = (tx, ty)"
proof -
  obtain sx sy where st: "start_of env s = (sx, sy)" by (cases "start_of env s")
  define n where "n = step_count (distance (sx, sy) (tx, ty))"
  have npos: "0 < n" using step_count_pos[of "distance (sx, sy) (tx, ty)"] by (simp add: n_def)
  define r1 where "r1 = - 50 + int (rand_at env (draws s) mod nat (50 - (- 50) + 1))"
  define r2 where "r2 = - 30 + int (rand_at env (Suc (draws s)) mod nat (30 - (- 30) + 1))"
  define r3 where "r3 = - 50 + int (rand_at env (Suc (Suc (draws s))) mod nat (50 - (- 50) + 1))"
  define r4 where "r4 = - 30 + int (rand_at env (Suc (Suc (Suc (draws s)))) mod nat (30 - (- 30) + 1))"
  define p1 where "p1 = (real_of_int sx + real_of_int (tx - sx) * 0.3 + real_of_int r1,
                         real_of_int sy + real_of_int (ty - sy) * 0.1 + real_of_int r2)"
  define p2 where "p2 = (real_of_int sx + real_of_int (tx - sx) * 0.7 + real_of_int r3,
                         real_of_int sy + real_of_int (ty - sy) * 0.9 + real_of_int r4)"
  define ws where "ws = map (waypoint (real_of_int sx, real_of_int sy) p1 p2
                               (real_of_int tx, real_of_int ty) n) [0 ..< n + 1]"
  have g: "get_mouse_position env s = (Inr (sx, sy), s\<lparr>queries := Suc (queries s)\<rparr>)"
    using st by (simp add: get_mouse_position_def start_of_def)
  have "human_move_mouse env tx ty s =
      (Inr (), s\<lparr>queries := Suc (queries s), draws := draws s + 4,
                 events := events s @ map move_to ws @ [MouseMove tx ty]\<rparr>)"
    unfolding ws_def p1_def p2_def r1_def r2_def r3_def r4_def n_def
    by (simp add: human_move_mouse_def bnd_def g randint_def mousemove_each_run run_def Let_def)
  moreover have "length ws = n + 1" by (simp add: ws_def)
  moreover have "hd ws = (sx, sy)"
    unfolding ws_def by (simp add: hd_map hd_upt waypoint_first del: upt_Suc)
  moreover have "last ws = (tx, ty)"
    unfolding ws_def using npos by (simp add: last_map waypoint_last del: upt_Suc)
  ultimately show ?thesis using st by (auto simp: n_def)
qed








lemma click_at_run:
  "\<exists>ws. click_at env x y s =
      (Inr (), s\<lparr>queries := Suc (queries s), draws := draws s + 4,
                 events := events s @ map move_to ws @ [MouseMove x y, MouseClick]\<rparr>)"
proof -
  obtain ws where "human_move_mouse env x y s =
      (Inr (), s\<lparr>queries := Suc (queries s), draws := draws s + 4,
                 events := events s @ map move_to ws @ [MouseMove x y]\<rparr>)"
    using human_move_mouse_run[of env x y s] by blast
  then show ?thesis by (intro exI[of _ ws]) (simp add: click_at_def bnd_def run_def)
qed

lemma click_at_fst [simp]: "fst (click_at env x y s) = Inr ()"
  using click_at_run[of env x y s] by auto

lemma click_at_shots [simp]: "shots (snd (click_at env x y s)) = shots s"
  using click_at_run[of env x y s] by auto

text \<open>
  C8. For every rectangle of width and height at least 11 and every random draw,
  \<^verbatim>\<open>click_random_within\<close> clicks (moves to and presses the button at) a point of
  \<open>[x + 5, x + width - 5] \<times> [y + 5, y + height - 5]\<close>.
\<close>

theorem click_random_within_bounds:
  assumes "11 \<le> width" and "11 \<le> height"
  shows "\<exists>rand_x rand_y s1 es.
           click_random_within env x y width height s = click_at env rand_x rand_y s1
         \<and> events (snd (click_random_within env x y width height s)) =
             events s @ es @ [MouseMove rand_x rand_y, MouseClick]
         \<and> x + 5 \<le> rand_x \<and> rand_x \<le> x + width - 5
         \<and> y + 5 \<le> rand_y \<and> rand_y \<le> y + height - 5"
proof -
  let ?s1 = "s\<lparr>draws := Suc (draws s)\<rparr>"
  let ?s2 = "?s1\<lparr>draws := Suc (draws ?s1)\<rparr>"
  obtain rx where rx: "5 \<le> rx" "rx \<le> width - 5"
      "randint env 5 (max (5 + 1) (width - 5)) s = (Inr rx, ?s1)"
    using randint_range[of 5 "max (5 + 1) (width - 5)" env s] assms(1) by auto
  obtain ry where ry: "5 \<le> ry" "ry \<le> height - 5"
      "randint env 5 (max (5 + 1) (height - 5)) ?s1 = (Inr ry, ?s2)"
    using randint_range[of 5 "max (5 + 1) (height - 5)" env ?s1] assms(2) by auto
  have eq: "click_random_within env x y width height s = click_at env (x + rx) (y + ry) ?s2"
    using rx(3) ry(3) by (simp add: click_random_within_def bnd_def Let_def)
  obtain ws where "click_at env (x + rx) (y + ry) ?s2 =
      (Inr (), ?s2\<lparr>queries := Suc (queries ?s2), draws := draws ?s2 + 4,
                 events := events ?s2 @ map move_to ws @ [MouseMove (x + rx) (y + ry), MouseClick]\<rparr>)"
    using click_at_run[of env "x + rx" "y + ry" ?s2] by blast
  then have ev: "events (snd (click_random_within env x y width height s)) =
             events s @ map move_to ws @ [MouseMove (x + rx) (y + ry), MouseClick]"
    using eq by simp
  show ?thesis
    apply (rule exI[of _ "x + rx"], rule exI[of _ "y + ry"], rule exI[of _ ?s2],
           rule exI[of _ "map move_to ws"])
    using eq ev rx(1,2) ry(1,2) by simp
qed

text \<open>The theorem at the smallest rectangle, 11 by 11 at (100, 200).\<close>

theorem click_random_within_bounds_witness:
  "\<exists>rand_x rand_y s1 es.
           click_random_within demo_env 100 200 11 11 start_state = click_at demo_env rand_x rand_y s1
         \<and> events (snd (click_random_within demo_env 100 200 11 11 start_state)) =
             events start_state @ es @ [MouseMove rand_x rand_y, MouseClick]
         \<and> 105 \<le> rand_x \<and> rand_x \<le> 106 \<and> 205 \<le> rand_y \<and> rand_y \<le> 206"
  using click_random_within_bounds[of 11 11 demo_env 100 200 start_state] by simp

section \<open>Polling\<close>

lemma pl_loop_eq:
  "pl_wait_and_click_loop env name timeout MATCH_THRESHOLD elapsed s = wait_and_click_loop env name timeout elapsed s"
proof (induction env name timeout elapsed s rule: wait_and_click_loop.induct)
  case (1 env name timeout elapsed s)
  show ?case
    apply (subst wait_and_click_loop.simps)
    apply (subst pl_wait_and_click_loop.simps)
    using 1 by (auto simp: find_template_eq_pl split: prod.splits sum.splits option.splits)
qed

lemma wait_and_click_eq_pl:
  "wait_and_click env name timeout = pl_wait_and_click env name timeout MATCH_THRESHOLD"
  by (rule ext) (simp add: wait_and_click_def pl_wait_and_click_def pl_loop_eq)

lemma pl_loop_step:
  "pl_wait_and_click_loop env name timeout threshold elapsed s =
     (if elapsed < timeout then
        (case sighting env name threshold (shots s) of
           Inl e \<Rightarrow> (Inl e, s\<lparr>shots := Suc (shots s)\<rparr>)
         | Inr None \<Rightarrow> pl_wait_and_click_loop env name timeout threshold (elapsed + POLL_INTERVAL)
                         (s\<lparr>shots := Suc (shots s)\<rparr>)
         | Inr (Some c) \<Rightarrow>
             (Inr True, snd (click_at env (coord0 c) (coord1 c) (s\<lparr>shots := Suc (shots s)\<rparr>))))
      else (Inr False, s))"
  apply (subst pl_wait_and_click_loop.simps)
  apply (cases "snapshot (screen_at env (shots s))")
   apply (simp add: take_screenshot_def sighting_def)
  apply (simp add: take_screenshot_def sighting_def find_template_eq_pl bnd_def ret_def
      split: sum.splits option.splits prod.splits)
  apply (metis click_at_fst fst_conv sum.inject(2) old.unit.exhaust Inl_Inr_False)
  done

lemma pl_loop_found:
  "\<forall>j<k. sighting env name threshold (shots s + j) = Inr None \<Longrightarrow>
   sighting env name threshold (shots s + k) = Inr (Some c) \<Longrightarrow>
   elapsed + real k * POLL_INTERVAL < timeout \<Longrightarrow>
   pl_wait_and_click_loop env name timeout threshold elapsed s =
     (Inr True, snd (click_at env (coord0 c) (coord1 c) (s\<lparr>shots := shots s + k + 1\<rparr>)))"
proof (induction k arbitrary: elapsed s)
  case 0
  then show ?case by (subst pl_loop_step) simp
next
  case (Suc k)
  let ?s1 = "s\<lparr>shots := Suc (shots s)\<rparr>"
  have "0 \<le> real (Suc k) * POLL_INTERVAL" by (simp add: POLL_INTERVAL_def)
  with Suc.prems(3) have e: "elapsed < timeout" by linarith
  have s0: "sighting env name threshold (shots s) = Inr None" using Suc.prems(1) by force
  have 1: "\<forall>j<k. sighting env name threshold (shots ?s1 + j) = Inr None"
    using Suc.prems(1) by (metis Suc_less_eq add_Suc_shift select_convs(1) surjective update_convs(1) add_Suc_right add_Suc)
  have 2: "sighting env name threshold (shots ?s1 + k) = Inr (Some c)" using Suc.prems(2) by simp
  have 3: "(elapsed + POLL_INTERVAL) + real k * POLL_INTERVAL < timeout"
    using Suc.prems(3) by (simp add: algebra_simps)
  show ?case
    apply (subst pl_loop_step)
    using e s0 Suc.IH[OF 1 2 3] by simp
qed

lemma pl_loop_never:
  "\<forall>j<n. sighting env name threshold (shots s + j) = Inr None \<Longrightarrow>
   n = nat \<lceil>(timeout - elapsed) / POLL_INTERVAL\<rceil> \<Longrightarrow>
   pl_wait_and_click_loop env name timeout threshold elapsed s = (Inr False, s\<lparr>shots := shots s + n\<rparr>)"
proof (induction n arbitrary: elapsed s)
  case 0
  then have "\<not> elapsed < timeout" by (simp add: POLL_INTERVAL_def, linarith?)
  then show ?case by (subst pl_loop_step) simp
next
  case (Suc n)
  let ?s1 = "s\<lparr>shots := Suc (shots s)\<rparr>"
  have e: "elapsed < timeout" using Suc.prems(2) by (simp add: POLL_INTERVAL_def, linarith?)
  have s0: "sighting env name threshold (shots s) = Inr None" using Suc.prems(1) by force
  have 1: "\<forall>j<n. sighting env name threshold (shots ?s1 + j) = Inr None"
    using Suc.prems(1) by (metis Suc_less_eq add_Suc_shift select_convs(1) surjective update_convs(1) add_Suc_right add_Suc)
  have 2: "n = nat \<lceil>(timeout - (elapsed + POLL_INTERVAL)) / POLL_INTERVAL\<rceil>"
    using Suc.prems(2) by (simp add: POLL_INTERVAL_def, linarith?)
  show ?case
    apply (subst pl_loop_step)
    using e s0 Suc.IH[OF 1 2] by simp
qed

lemma poll_bound:
  "0 \<le> timeout \<Longrightarrow> timeout \<le> real (nat \<lceil>timeout / POLL_INTERVAL\<rceil>) * POLL_INTERVAL
     \<and> real (nat \<lceil>timeout / POLL_INTERVAL\<rceil>) * POLL_INTERVAL < timeout + POLL_INTERVAL"
proof -
  assume t: "0 \<le> timeout"
  have "0 \<le> \<lceil>timeout * 2\<rceil>" using t by simp
  then have r: "real (nat \<lceil>timeout * 2\<rceil>) = of_int \<lceil>timeout * 2\<rceil>" by simp
  have a: "timeout * 2 \<le> of_int \<lceil>timeout * 2\<rceil>" by (rule le_of_int_ceiling)
  have b: "of_int \<lceil>timeout * 2\<rceil> < timeout * 2 + 1" by linarith
  show ?thesis unfolding POLL_INTERVAL_def using r a b by simp
qed

lemma find_template_center:
  "find_template env screen name threshold False = Inr (Some c) \<Longrightarrow> \<exists>x y. c = Center x y"
  unfolding find_template_def by (auto split: if_splits option.splits simp: Let_def)

lemma sighting_center:
  "sighting env name threshold n = Inr (Some c) \<Longrightarrow> \<exists>x y. c = Center x y"
  unfolding sighting_def by (auto split: option.splits dest: find_template_center)

text \<open>
  C4. Attempts are counted from 0, attempt j looking at capture number \<open>shots s + j\<close>
  after j intervals. If the template is first detected at attempt k and
  \<open>k * POLL_INTERVAL < timeout\<close>, then \<^verbatim>\<open>wait_and_click\<close> returns \<open>True\<close> having taken
  exactly k + 1 captures; the detected match is a centre point \<open>(x, y)\<close>, and the last
  commands are the move to \<open>(x, y)\<close> and the click. If no attempt detects the template, it returns \<open>False\<close> after exactly
  \<open>\<lceil>timeout / POLL_INTERVAL\<rceil>\<close> attempts and issues no command; that many intervals
  reach the timeout and exceed it by less than one interval. The function of
  \<^verbatim>\<open>bolt_login.py\<close> is the one of \<^verbatim>\<open>post_launch.py\<close> at the default threshold.
\<close>

theorem wait_and_click_polls:
  "((\<forall>j<k. sighting env name threshold (shots s + j) = Inr None)
      \<and> sighting env name threshold (shots s + k) = Inr (Some c)
      \<and> real k * POLL_INTERVAL < timeout
    \<longrightarrow> fst (pl_wait_and_click env name timeout threshold s) = Inr True
      \<and> shots (snd (pl_wait_and_click env name timeout threshold s)) = shots s + k + 1
      \<and> (\<exists>x y es. c = Center x y
            \<and> events (snd (pl_wait_and_click env name timeout threshold s)) =
                 events s @ es @ [MouseMove x y, MouseClick]))
   \<and> ((\<forall>j < nat \<lceil>timeout / POLL_INTERVAL\<rceil>. sighting env name threshold (shots s + j) = Inr None)
    \<longrightarrow> pl_wait_and_click env name timeout threshold s =
          (Inr False, s\<lparr>shots := shots s + nat \<lceil>timeout / POLL_INTERVAL\<rceil>\<rparr>)
      \<and> (0 \<le> timeout \<longrightarrow>
            timeout \<le> real (nat \<lceil>timeout / POLL_INTERVAL\<rceil>) * POLL_INTERVAL
          \<and> real (nat \<lceil>timeout / POLL_INTERVAL\<rceil>) * POLL_INTERVAL < timeout + POLL_INTERVAL))
   \<and> wait_and_click env name timeout = pl_wait_and_click env name timeout MATCH_THRESHOLD"
proof (intro conjI impI)
  assume h: "(\<forall>j<k. sighting env name threshold (shots s + j) = Inr None)
      \<and> sighting env name threshold (shots s + k) = Inr (Some c)
      \<and> real k * POLL_INTERVAL < timeout"
  let ?s1 = "s\<lparr>shots := shots s + k + 1\<rparr>"
  have run: "pl_wait_and_click env name timeout threshold s =
      (Inr True, snd (click_at env (coord0 c) (coord1 c) ?s1))"
    unfolding pl_wait_and_click_def using h by (intro pl_loop_found) auto
  obtain ws where ws: "click_at env (coord0 c) (coord1 c) ?s1 =
      (Inr (), ?s1\<lparr>queries := Suc (queries ?s1), draws := draws ?s1 + 4,
                 events := events ?s1 @ map move_to ws @ [MouseMove (coord0 c) (coord1 c), MouseClick]\<rparr>)"
    using click_at_run[of env "coord0 c" "coord1 c" ?s1] by blast
  show "fst (pl_wait_and_click env name timeout threshold s) = Inr True" using run by simp
  show "shots (snd (pl_wait_and_click env name timeout threshold s)) = shots s + k + 1"
    using run by simp
  obtain x y where c: "c = Center x y"
    using h sighting_center[of env name threshold "shots s + k" c] by blast
  show "\<exists>x y es. c = Center x y
            \<and> events (snd (pl_wait_and_click env name timeout threshold s)) =
                 events s @ es @ [MouseMove x y, MouseClick]"
    using run ws c by (intro exI[of _ x] exI[of _ y] exI[of _ "map move_to ws"]) simp
next
  assume "\<forall>j < nat \<lceil>timeout / POLL_INTERVAL\<rceil>. sighting env name threshold (shots s + j) = Inr None"
  then show "pl_wait_and_click env name timeout threshold s =
          (Inr False, s\<lparr>shots := shots s + nat \<lceil>timeout / POLL_INTERVAL\<rceil>\<rparr>)"
    unfolding pl_wait_and_click_def by (intro pl_loop_never) auto
next
  assume "0 \<le> timeout"
  then show "timeout \<le> real (nat \<lceil>timeout / POLL_INTERVAL\<rceil>) * POLL_INTERVAL"
    using poll_bound by blast
next
  assume "0 \<le> timeout"
  then show "real (nat \<lceil>timeout / POLL_INTERVAL\<rceil>) * POLL_INTERVAL < timeout + POLL_INTERVAL"
    using poll_bound by blast
next
  show "wait_and_click env name timeout = pl_wait_and_click env name timeout MATCH_THRESHOLD"
    by (rule wait_and_click_eq_pl)
qed

lemma sighting_demo:
  "name \<notin> {''missing.png'', ''broken.png'', ''hidden.png''} \<Longrightarrow>
   sighting demo_env name MATCH_THRESHOLD n = Inr (Some (Center 31 10))"
  by (simp add: sighting_def demo_env_def find_template_def imread_def button_def
      minMaxLoc_def cells_def better_def MATCH_THRESHOLD_def)

text \<open>The theorem where the first two captures fail and the third shows the button, whose
  best score lies at (1, 0) and whose centre is therefore (31, 10), and for a template that
  never scores above 0.2 with a timeout of one second.\<close>

theorem wait_and_click_polls_witness:
  "fst (pl_wait_and_click late_env ''play_button.png'' 10 MATCH_THRESHOLD start_state) = Inr True
   \<and> shots (snd (pl_wait_and_click late_env ''play_button.png'' 10 MATCH_THRESHOLD start_state)) = 3
   \<and> (\<exists>es. events (snd (pl_wait_and_click late_env ''play_button.png'' 10 MATCH_THRESHOLD
                              start_state)) =
              events start_state @ es @ [MouseMove 31 10, MouseClick])
   \<and> (\<exists>es. events (snd (wait_and_click late_env ''play_button.png'' 10 start_state)) =
              events start_state @ es @ [MouseMove 31 10, MouseClick])
   \<and> pl_wait_and_click demo_env ''hidden.png'' 1 MATCH_THRESHOLD start_state =
       (Inr False, start_state\<lparr>shots := 2\<rparr>)"
proof -
  have a: "(\<forall>j<2. sighting late_env ''play_button.png'' MATCH_THRESHOLD (shots start_state + j) = Inr None)
      \<and> sighting late_env ''play_button.png'' MATCH_THRESHOLD (shots start_state + 2) = Inr (Some (Center 31 10))
      \<and> real 2 * POLL_INTERVAL < 10"
    by (simp add: sighting_def late_env_def demo_env_def find_template_def imread_def button_def
      minMaxLoc_def cells_def better_def MATCH_THRESHOLD_def POLL_INTERVAL_def start_state_def)
  have n: "nat \<lceil>1 / POLL_INTERVAL\<rceil> = 2" by (simp add: POLL_INTERVAL_def)
  have b: "\<forall>j < nat \<lceil>1 / POLL_INTERVAL\<rceil>.
      sighting demo_env ''hidden.png'' MATCH_THRESHOLD (shots start_state + j) = Inr None"
    by (simp add: sighting_def demo_env_def find_template_def imread_def faint_def
      minMaxLoc_def cells_def better_def MATCH_THRESHOLD_def)
  show ?thesis
    using wait_and_click_polls[of 2 late_env "''play_button.png''" MATCH_THRESHOLD start_state "Center 31 10" 10]
          wait_and_click_polls[of 0 demo_env "''hidden.png''" MATCH_THRESHOLD start_state "Center 31 10" 1]
          a b n by (simp add: start_state_def)
qed

section \<open>Commands and errors of the flows\<close>

lemma emits_ret: "emits E P (ret v)"
  by (simp add: emits_def ret_def)

lemma emits_throw: "e \<in> E \<Longrightarrow> emits E P (throw e)"
  by (simp add: emits_def throw_def)

lemma emits_lift: "(\<And>e. r = Inl e \<Longrightarrow> e \<in> E) \<Longrightarrow> emits E P (lift r)"
  by (simp add: emits_def lift_def)

lemma emits_run: "P ev \<Longrightarrow> emits E P (run ev)"
  by (simp add: emits_def run_def)

lemma emits_take_screenshot: "emits E P (take_screenshot env)"
  by (simp add: emits_def take_screenshot_def)

lemma emits_search: "emits E P (search env name)"
  by (simp add: emits_def search_def)

lemma emits_bnd:
  assumes m: "emits E P m" and f: "\<And>v. emits E P (f v)"
  shows "emits E P (bnd m f)"
  unfolding emits_def
proof (intro allI)
  fix s
  obtain r s1 where ms: "m s = (r, s1)" by (cases "m s")
  obtain es where es: "events s1 = events s @ es" "list_all P es"
    using m ms unfolding emits_def by (metis snd_conv)
  show "(\<exists>es. events (snd (bnd m f s)) = events s @ es \<and> list_all P es)
        \<and> (\<forall>e. fst (bnd m f s) = Inl e \<longrightarrow> e \<in> E)"
  proof (cases r)
    case (Inl e)
    then have "e \<in> E" using m ms unfolding emits_def by (metis fst_conv)
    then show ?thesis using Inl ms es by (auto simp: bnd_def)
  next
    case (Inr v)
    obtain es2 where es2: "events (snd (f v s1)) = events s1 @ es2" "list_all P es2"
      using f[of v] unfolding emits_def by blast
    have err: "\<forall>e. fst (f v s1) = Inl e \<longrightarrow> e \<in> E" using f[of v] unfolding emits_def by blast
    have "events (snd (f v s1)) = events s @ (es @ es2) \<and> list_all P (es @ es2)"
      using es es2 by simp
    then show ?thesis using Inr ms err by (auto simp: bnd_def simp del: list_all_append)
  qed
qed

lemma emits_click_at:
  "P MouseClick \<Longrightarrow> (\<And>x y. P (MouseMove x y)) \<Longrightarrow> emits E P (click_at env x y)"
  unfolding emits_def
proof (intro allI)
  fix s
  assume P: "P MouseClick" "\<And>x y. P (MouseMove x y)"
  obtain ws where ws: "click_at env x y s =
      (Inr (), s\<lparr>queries := Suc (queries s), draws := draws s + 4,
                 events := events s @ map move_to ws @ [MouseMove x y, MouseClick]\<rparr>)"
    using click_at_run[of env x y s] by blast
  have "list_all P (map move_to ws @ [MouseMove x y, MouseClick])"
    using P by (simp add: list_all_iff move_to_def)
  then show "(\<exists>es. events (snd (click_at env x y s)) = events s @ es \<and> list_all P es)
        \<and> (\<forall>e. fst (click_at env x y s) = Inl e \<longrightarrow> e \<in> E)"
    using ws by auto
qed

lemma emits_randint: "a \<le> b \<Longrightarrow> emits E P (randint env a b)"
  by (simp add: emits_def randint_def)

lemma emits_click_random_within:
  "P MouseClick \<Longrightarrow> (\<And>x y. P (MouseMove x y)) \<Longrightarrow> emits E P (click_random_within env x y w h)"
  unfolding click_random_within_def Let_def
  by (intro emits_bnd emits_randint emits_click_at) auto

lemma emits_type_text: "(\<And>c. P (TypeChar c)) \<Longrightarrow> emits E P (type_text str)"
  by (induction str) (auto intro!: emits_ret emits_bnd emits_run)

lemma find_template_CvError:
  "find_template env screen name threshold rb = Inl e \<Longrightarrow> e = CvError"
  unfolding find_template_def
  by (auto split: if_splits option.splits simp: Let_def)

lemma find_template_total:
  assumes "cv_total env"
  shows "\<exists>r. find_template env screen name threshold rb = Inr r"
proof (cases "imread env name")
  case None
  then show ?thesis by (simp add: find_template_def)
next
  case (Some template)
  obtain result where r: "matchTemplate env screen template = Some result" "concat result \<noteq> []"
    using assms unfolding cv_total_def by blast
  then obtain m x y where "minMaxLoc result = Some (m, x, y)"
    using minMaxLoc_None[of result] by (cases "minMaxLoc result") auto
  then show ?thesis using Some r by (simp add: find_template_def Let_def)
qed

lemma find_template_error:
  "find_template env screen name threshold rb = Inl e \<Longrightarrow> e = CvError \<and> \<not> cv_total env"
  using find_template_CvError[of env screen name threshold rb e]
        find_template_total[of env screen name threshold rb] by auto

lemma emits_find_template:
  "cv_total env \<or> CvError \<in> E \<Longrightarrow> emits E P (lift (find_template env screen name threshold rb))"
  by (rule emits_lift) (auto dest: find_template_error)

lemma emits_pl_find_template:
  "cv_total env \<or> CvError \<in> E \<Longrightarrow> emits E P (lift (pl_find_template env screen name threshold rb))"
  by (simp add: find_template_eq_pl emits_find_template)

lemma sighting_error:
  "sighting env name threshold n = Inl e \<Longrightarrow> e = CvError \<and> \<not> cv_total env"
  unfolding sighting_def by (auto split: option.splits dest: find_template_error)

lemma emits_pl_loop_at:
  assumes P: "P MouseClick" "\<And>x y. P (MouseMove x y)" and E: "cv_total env \<or> CvError \<in> E"
  shows "n = nat \<lceil>(timeout - elapsed) / POLL_INTERVAL\<rceil> \<Longrightarrow>
         (\<exists>es. events (snd (pl_wait_and_click_loop env name timeout threshold elapsed s)) = events s @ es
                \<and> list_all P es)
       \<and> (\<forall>e. fst (pl_wait_and_click_loop env name timeout threshold elapsed s) = Inl e \<longrightarrow> e \<in> E)"
proof (induction n arbitrary: elapsed s)
  case 0
  then have "\<not> elapsed < timeout" by (simp add: POLL_INTERVAL_def, linarith?)
  then show ?case by (subst (1 2) pl_loop_step) simp
next
  case (Suc n)
  let ?s1 = "s\<lparr>shots := Suc (shots s)\<rparr>"
  have e: "elapsed < timeout" using Suc.prems by (simp add: POLL_INTERVAL_def, linarith?)
  have n: "n = nat \<lceil>(timeout - (elapsed + POLL_INTERVAL)) / POLL_INTERVAL\<rceil>"
    using Suc.prems by (simp add: POLL_INTERVAL_def, linarith?)
  note ih = Suc.IH[OF n, of ?s1]
  show ?case
  proof (cases "sighting env name threshold (shots s)")
    case (Inl err)
    then have "err \<in> E" using E sighting_error[of env name threshold "shots s" err] by auto
    then show ?thesis using e Inl by (subst (1 2) pl_loop_step) simp
  next
    case (Inr r)
    show ?thesis
    proof (cases r)
      case None
      then show ?thesis using e Inr ih by (subst (1 2) pl_loop_step) simp
    next
      case (Some c)
      have "emits E P (click_at env (coord0 c) (coord1 c))" using P by (rule emits_click_at)
      then obtain es where "events (snd (click_at env (coord0 c) (coord1 c) ?s1)) = events ?s1 @ es"
         "list_all P es" unfolding emits_def by blast
      then show ?thesis using e Inr Some by (subst (1 2) pl_loop_step) simp
    qed
  qed
qed

lemma emits_pl_wait_and_click:
  "P MouseClick \<Longrightarrow> (\<And>x y. P (MouseMove x y)) \<Longrightarrow> cv_total env \<or> CvError \<in> E \<Longrightarrow>
   emits E P (pl_wait_and_click env name timeout threshold)"
  unfolding emits_def pl_wait_and_click_def
  using emits_pl_loop_at[OF _ _ _ refl, of P env E] by blast

lemma emits_wait_and_click:
  "P MouseClick \<Longrightarrow> (\<And>x y. P (MouseMove x y)) \<Longrightarrow> cv_total env \<or> CvError \<in> E \<Longrightarrow>
   emits E P (wait_and_click env name timeout)"
  by (simp add: wait_and_click_eq_pl emits_pl_wait_and_click)

lemma wait_for_window_loop_run:
  "n = nat \<lceil>(timeout - elapsed) / POLL_INTERVAL\<rceil> \<Longrightarrow>
   \<exists>r k. wait_for_window_loop env name timeout elapsed s = (Inr r, s\<lparr>searches := k\<rparr>)"
proof (induction n arbitrary: elapsed s)
  case 0
  then have "\<not> elapsed < timeout" by (simp add: POLL_INTERVAL_def, linarith?)
  then have "wait_for_window_loop env name timeout elapsed s = (Inr None, s\<lparr>searches := searches s\<rparr>)"
    by (subst wait_for_window_loop.simps) simp
  then show ?case by blast
next
  case (Suc n)
  let ?s1 = "s\<lparr>searches := Suc (searches s)\<rparr>"
  have n: "n = nat \<lceil>(timeout - (elapsed + POLL_INTERVAL)) / POLL_INTERVAL\<rceil>"
    using Suc.prems by (simp add: POLL_INTERVAL_def, linarith?)
  obtain r k where ih: "wait_for_window_loop env name timeout (elapsed + POLL_INTERVAL) ?s1 = (Inr r, ?s1\<lparr>searches := k\<rparr>)"
    using Suc.IH[OF n, of ?s1] by blast
  obtain rc out where so: "search_at env (searches s) name = (rc, out)" by (cases "search_at env (searches s) name")
  have e: "elapsed < timeout" using Suc.prems by (simp add: POLL_INTERVAL_def, linarith?)
  show ?case
    apply (subst wait_for_window_loop.simps)
    using ih so e by (auto simp: search_def)
qed

lemma wait_for_window_run:
  "\<exists>r k. wait_for_window env name timeout s = (Inr r, s\<lparr>searches := k\<rparr>)"
  unfolding wait_for_window_def using wait_for_window_loop_run[OF refl] by blast

lemma emits_wait_for_window: "emits E P (wait_for_window env name timeout)"
  unfolding emits_def
proof
  fix s
  obtain r k where "wait_for_window env name timeout s = (Inr r, s\<lparr>searches := k\<rparr>)"
    using wait_for_window_run by blast
  then show "(\<exists>es. events (snd (wait_for_window env name timeout s)) = events s @ es \<and> list_all P es) \<and>
         (\<forall>e. fst (wait_for_window env name timeout s) = Inl e \<longrightarrow> e \<in> E)" by simp
qed

lemma emits_option:
  "emits E P a \<Longrightarrow> (\<And>x. emits E P (b x)) \<Longrightarrow> emits E P (case v of None \<Rightarrow> a | Some x \<Rightarrow> b x)"
  by (cases v) auto

lemma emits_if:
  "emits E P a \<Longrightarrow> emits E P b \<Longrightarrow> emits E P (if c then a else b)"
  by simp

lemma emits_prod:
  "(\<And>x y. emits E P (f x y)) \<Longrightarrow> emits E P (case p of (x, y) \<Rightarrow> f x y)"
  by (cases p) auto

lemmas emits_intros = emits_bnd emits_ret emits_take_screenshot emits_search emits_option emits_if
  emits_prod emits_find_template emits_pl_find_template emits_click_at emits_wait_and_click
  emits_pl_wait_and_click emits_wait_for_window emits_run emits_type_text emits_click_random_within

lemma emits_persisted_session:
  "P MouseClick \<Longrightarrow> (\<And>x y. P (MouseMove x y)) \<Longrightarrow> cv_total env \<or> CvError \<in> E \<Longrightarrow>
   emits E P (persisted_session env)"
  unfolding persisted_session_def
  by (intro emits_intros) auto

lemma emits_select_character_and_play:
  "P MouseClick \<Longrightarrow> (\<And>x y. P (MouseMove x y)) \<Longrightarrow> (\<And>w x y. P (WindowMove w x y)) \<Longrightarrow>
   (\<And>w x y. P (WindowSize w x y)) \<Longrightarrow> cv_total env \<or> CvError \<in> E \<Longrightarrow>
   emits E P (select_character_and_play env)"
  unfolding select_character_and_play_def Let_def
  by (intro emits_intros) auto

lemma emits_lobby_attempts:
  "P MouseClick \<Longrightarrow> (\<And>x y. P (MouseMove x y)) \<Longrightarrow> cv_total env \<or> CvError \<in> E \<Longrightarrow>
   emits E P (lobby_attempts env n)"
  by (induction n) (auto intro!: emits_intros)

lemma emits_pl_main:
  "cv_total env \<or> CvError \<in> E \<Longrightarrow> emits E (\<lambda>ev. True) (pl_main env)"
  unfolding pl_main_def press_key_def
  by (intro emits_intros emits_lobby_attempts) auto

lemma emits_total: "emits {} P m \<Longrightarrow> \<exists>v s'. m s = (Inr v, s')"
  unfolding emits_def by (metis empty_iff prod.collapse sum.exhaust_sel sum.collapse(1) old.sum.exhaust)

section \<open>The configuration\<close>

lemma type_text_run: "type_text str s = (Inr (), s\<lparr>events := events s @ map TypeChar str\<rparr>)"
  by (induction str arbitrary: s) (auto simp: ret_def bnd_def run_def)

lemma load_config_iff:
  "load_config env path = Inr config \<longleftrightarrow>
     read_json env path = Inr (JObject config)
     \<and> {''username'', ''password'', ''totpSecret'', ''characterName''} \<subseteq> dom config"
  unfolding load_config_def subscript_def
  by (auto split: sum.splits json_doc.splits option.splits)

text \<open>
  C2, as amended. \<^verbatim>\<open>load_config\<close> accepts a configuration exactly when the file holds an
  object with all four keys \<^verbatim>\<open>username\<close>, \<^verbatim>\<open>password\<close>, \<^verbatim>\<open>totpSecret\<close> and
  \<^verbatim>\<open>characterName\<close>; the absence of any one of the four aborts with a KeyError. A
  second-factor secret that is present but empty (or otherwise false) is accepted, and
  then, when no error page shows, the flow types the password, submits it and skips the
  second-factor step without an error.
\<close>

theorem load_config_requires_all_keys:
  "(load_config env path = Inr config \<longleftrightarrow>
      read_json env path = Inr (JObject config)
      \<and> {''username'', ''password'', ''totpSecret'', ''characterName''} \<subseteq> dom config)
   \<and> (read_json env path = Inr (JObject config)
      \<and> key \<in> {''username'', ''password'', ''totpSecret'', ''characterName''} \<and> config key = None
      \<longrightarrow> (\<exists>k. load_config env path = Inl (KeyError k)))
   \<and> (config ''totpSecret'' = Some secret \<and> \<not> truthy secret
      \<and> sighting env ''error_login_cant_open_page.png'' MATCH_THRESHOLD (shots s) = Inr None
      \<longrightarrow> full_login_after_email env config (JStr pw) s =
            (Inr None, s\<lparr>shots := Suc (shots s),
                         events := events s @ map TypeChar pw @ [PressKey ''Return'']\<rparr>))"
proof (intro conjI impI)
  show "load_config env path = Inr config \<longleftrightarrow>
      read_json env path = Inr (JObject config)
      \<and> {''username'', ''password'', ''totpSecret'', ''characterName''} \<subseteq> dom config"
    by (rule load_config_iff)
next
  assume "read_json env path = Inr (JObject config)
      \<and> key \<in> {''username'', ''password'', ''totpSecret'', ''characterName''} \<and> config key = None"
  then show "\<exists>k. load_config env path = Inl (KeyError k)"
    unfolding load_config_def subscript_def
    by (auto split: sum.splits json_doc.splits option.splits)
next
  assume h: "config ''totpSecret'' = Some secret \<and> \<not> truthy secret
      \<and> sighting env ''error_login_cant_open_page.png'' MATCH_THRESHOLD (shots s) = Inr None"
  then show "full_login_after_email env config (JStr pw) s =
            (Inr None, s\<lparr>shots := Suc (shots s),
                         events := events s @ map TypeChar pw @ [PressKey ''Return'']\<rparr>)"
    unfolding full_login_after_email_def sighting_def
    by (cases "snapshot (screen_at env (shots s))")
       (simp_all add: bnd_def take_screenshot_def ret_def lift_def type_text_run press_key_def
          run_def subscript_def)
qed

text \<open>The theorem at the example configuration, whose second-factor secret is empty, and
  at the configuration without that key.\<close>

theorem load_config_requires_all_keys_witness:
  "load_config quiet_env ''config.json'' = Inr demo_config
   \<and> (\<exists>k. load_config bare_env ''config.json'' = Inl (KeyError k))
   \<and> full_login_after_email quiet_env demo_config (JStr ''pw'') start_state =
       (Inr None, start_state\<lparr>shots := Suc (shots start_state),
          events := events start_state @ map TypeChar ''pw'' @ [PressKey ''Return'']\<rparr>)"
proof -
  have a: "read_json quiet_env ''config.json'' = Inr (JObject demo_config)
      \<and> {''username'', ''password'', ''totpSecret'', ''characterName''} \<subseteq> dom demo_config"
    by (simp add: quiet_env_def demo_env_def demo_config_def)
  have b: "read_json bare_env ''config.json'' = Inr (JObject bare_config)
      \<and> ''totpSecret'' \<in> {''username'', ''password'', ''totpSecret'', ''characterName''}
      \<and> bare_config ''totpSecret'' = None"
    by (simp add: bare_env_def demo_env_def bare_config_def)
  have c: "demo_config ''totpSecret'' = Some (JStr []) \<and> \<not> truthy (JStr [])
      \<and> sighting quiet_env ''error_login_cant_open_page.png'' MATCH_THRESHOLD (shots start_state) = Inr None"
    by (simp add: demo_config_def sighting_def quiet_env_def demo_env_def find_template_def)
  show ?thesis
    using load_config_requires_all_keys[of quiet_env "''config.json''" demo_config "''totpSecret''" "JStr []" start_state "''pw''"]
          load_config_requires_all_keys[of bare_env "''config.json''" bare_config "''totpSecret''" "JStr []" start_state "''pw''"]
          a b c by blast
qed

text \<open>
  C2 as stated fails: a configuration with the account identifier and the credential
  secret that omits the second-factor secret is rejected.
\<close>

theorem load_config_rejects_missing_totp:
  "bare_config ''username'' = Some (JStr ''a@b.c'') \<and> bare_config ''password'' = Some (JStr ''pw'')
   \<and> read_json bare_env ''config.json'' = Inr (JObject bare_config)
   \<and> load_config bare_env ''config.json'' = Inl (KeyError ''totpSecret'')"
  by (simp add: bare_env_def bare_config_def demo_env_def load_config_def subscript_def)

section \<open>The login flow\<close>

lemma login_flow_not_detected:
  assumes "sighting env ''i_understand_button.png'' MATCH_THRESHOLD (shots s) = Inr None"
  shows "login_flow env config s =
     bnd (persisted_session env) (\<lambda>_. select_character_and_play env) (s\<lparr>shots := Suc (shots s)\<rparr>)"
  using assms unfolding login_flow_def sighting_def
  by (cases "snapshot (screen_at env (shots s))")
     (simp_all add: bnd_def take_screenshot_def ret_def lift_def)

lemma main_cases:
  "(\<exists>e. main env path s = (Inl e, s))
   \<or> (\<exists>k. main env path s = (Inr 0, s\<lparr>searches := k\<rparr>))
   \<or> (\<exists>k. main env path s = (Inr 1, s\<lparr>searches := k\<rparr>))
   \<or> (\<exists>config k. load_config env path = Inr config
          \<and> main env path s = login_flow env config (s\<lparr>searches := k\<rparr>))"
proof (cases "load_config env path")
  case (Inl e)
  then show ?thesis by (simp add: main_def bnd_def lift_def)
next
  case (Inr config)
  let ?s1 = "s\<lparr>searches := Suc (searches s)\<rparr>"
  obtain rc out where so: "search_at env (searches s) ''RuneLite'' = (rc, out)"
    by (cases "search_at env (searches s) ''RuneLite''")
  obtain r k where w: "wait_for_window env ''Bolt'' 60 ?s1 = (Inr r, ?s1\<lparr>searches := k\<rparr>)"
    using wait_for_window_run by blast
  show ?thesis
  proof (cases "rc = 0 \<and> out \<noteq> []")
    case True
    then have "main env path s = (Inr 0, ?s1)"
      using Inr so by (simp add: main_def bnd_def lift_def search_def ret_def)
    then show ?thesis by blast
  next
    case False
    show ?thesis
    proof (cases "r = None \<or> r = Some []")
      case True
      then have "main env path s = (Inr 1, s\<lparr>searches := k\<rparr>)"
        using Inr so w False by (auto simp add: main_def bnd_def lift_def search_def ret_def)
      then show ?thesis by blast
    next
      case nb: False
      then have "main env path s = login_flow env config (s\<lparr>searches := k\<rparr>)"
        using Inr so w False by (auto simp add: main_def bnd_def lift_def search_def ret_def)
      then show ?thesis using Inr by blast
    qed
  qed
qed

lemma emits_persisted_tail:
  "emits UNIV (\<lambda>ev. \<not> credential_step ev)
     (bnd (persisted_session env) (\<lambda>_. select_character_and_play env))"
  by (intro emits_bnd emits_persisted_session emits_select_character_and_play) auto

text \<open>
  C5. If the first capture of the run does not show the disclaimer (the capture failed, or
  the lookup found nothing), the flow continues with the persisted-session path, and no
  command of the whole run of \<^verbatim>\<open>main\<close> types a character, presses a key or generates a
  one-time code: neither the account identifier nor the credential secret is typed, and no
  second-factor step is performed.
\<close>

theorem persisted_session_never_types:
  assumes "sighting env ''i_understand_button.png'' MATCH_THRESHOLD (shots s) = Inr None"
  shows "login_flow env config s =
           bnd (persisted_session env) (\<lambda>_. select_character_and_play env) (s\<lparr>shots := Suc (shots s)\<rparr>)
       \<and> (\<exists>es. events (snd (login_flow env config s)) = events s @ es
               \<and> list_all (\<lambda>ev. \<not> credential_step ev) es)
       \<and> (\<exists>es. events (snd (main env config_path s)) = events s @ es
               \<and> list_all (\<lambda>ev. \<not> credential_step ev) es)"
proof -
  have flow: "\<exists>es. events (snd (login_flow env cfg (s\<lparr>searches := k\<rparr>))) = events s @ es
               \<and> list_all (\<lambda>ev. \<not> credential_step ev) es" for cfg k
  proof -
    let ?s = "s\<lparr>searches := k\<rparr>"
    have "sighting env ''i_understand_button.png'' MATCH_THRESHOLD (shots ?s) = Inr None"
      using assms by simp
    then have "login_flow env cfg ?s =
       bnd (persisted_session env) (\<lambda>_. select_character_and_play env) (?s\<lparr>shots := Suc (shots ?s)\<rparr>)"
      by (rule login_flow_not_detected)
    then show ?thesis
      using emits_persisted_tail[of env] unfolding emits_def
      by (metis (no_types, lifting) select_convs(5) surjective update_convs(1) update_convs(4))
  qed
  have 1: "login_flow env config s =
           bnd (persisted_session env) (\<lambda>_. select_character_and_play env) (s\<lparr>shots := Suc (shots s)\<rparr>)"
    using assms by (rule login_flow_not_detected)
  have 2: "\<exists>es. events (snd (login_flow env config s)) = events s @ es
               \<and> list_all (\<lambda>ev. \<not> credential_step ev) es"
    using flow[of config "searches s"] by simp
  have 3: "\<exists>es. events (snd (main env config_path s)) = events s @ es
               \<and> list_all (\<lambda>ev. \<not> credential_step ev) es"
    using main_cases[of env config_path s] flow by (elim disjE exE conjE) auto
  from 1 2 3 show ?thesis by blast
qed

text \<open>The theorem in the environment where nothing is ever detected.\<close>

theorem persisted_session_never_types_witness:
  "login_flow quiet_env demo_config start_state =
           bnd (persisted_session quiet_env) (\<lambda>_. select_character_and_play quiet_env)
             (start_state\<lparr>shots := Suc (shots start_state)\<rparr>)
       \<and> (\<exists>es. events (snd (login_flow quiet_env demo_config start_state)) = events start_state @ es
               \<and> list_all (\<lambda>ev. \<not> credential_step ev) es)
       \<and> (\<exists>es. events (snd (main quiet_env ''config.json'' start_state)) = events start_state @ es
               \<and> list_all (\<lambda>ev. \<not> credential_step ev) es)"
proof -
  have "sighting quiet_env ''i_understand_button.png'' MATCH_THRESHOLD (shots start_state) = Inr None"
    by (simp add: sighting_def quiet_env_def demo_env_def find_template_def)
  then show ?thesis by (rule persisted_session_never_types)
qed

text \<open>
  C9. If the capture of the initial probe fails, the flow goes on exactly as the
  persisted-session path followed by the character selection, from the state in which that
  one capture is spent: there is no second probe. For \<^verbatim>\<open>main\<close> as a whole: it stops
  before the probe (configuration error, game already running, launcher window missing) or
  it runs the persisted-session path.
\<close>

theorem capture_failure_takes_persisted_branch:
  assumes "snapshot (screen_at env (shots s)) = None"
  shows "login_flow env config s =
           bnd (persisted_session env) (\<lambda>_. select_character_and_play env)
             (s\<lparr>shots := Suc (shots s)\<rparr>)
       \<and> ((\<exists>e. main env config_path s = (Inl e, s))
          \<or> (\<exists>k. main env config_path s = (Inr 0, s\<lparr>searches := k\<rparr>))
          \<or> (\<exists>k. main env config_path s = (Inr 1, s\<lparr>searches := k\<rparr>))
          \<or> (\<exists>k. main env config_path s =
                 bnd (persisted_session env) (\<lambda>_. select_character_and_play env)
                   (s\<lparr>searches := k, shots := Suc (shots s)\<rparr>)))"
proof -
  have none: "sighting env ''i_understand_button.png'' MATCH_THRESHOLD (shots (s\<lparr>searches := k\<rparr>)) = Inr None" for k
    using assms by (simp add: sighting_def)
  have flow: "login_flow env cfg (s\<lparr>searches := k\<rparr>) =
      bnd (persisted_session env) (\<lambda>_. select_character_and_play env)
        (s\<lparr>searches := k, shots := Suc (shots s)\<rparr>)" for cfg k
    using login_flow_not_detected[OF none, of cfg k] by simp
  have 1: "login_flow env config s =
           bnd (persisted_session env) (\<lambda>_. select_character_and_play env)
             (s\<lparr>shots := Suc (shots s)\<rparr>)"
    using flow[of config "searches s"] by simp
  have 2: "(\<exists>e. main env config_path s = (Inl e, s))
          \<or> (\<exists>k. main env config_path s = (Inr 0, s\<lparr>searches := k\<rparr>))
          \<or> (\<exists>k. main env config_path s = (Inr 1, s\<lparr>searches := k\<rparr>))
          \<or> (\<exists>k. main env config_path s =
                 bnd (persisted_session env) (\<lambda>_. select_character_and_play env)
                   (s\<lparr>searches := k, shots := Suc (shots s)\<rparr>))"
    using main_cases[of env config_path s] flow by metis
  from 1 2 show ?thesis by blast
qed

text \<open>The theorem in the environment where every capture fails.\<close>

theorem capture_failure_takes_persisted_branch_witness:
  "login_flow blind_env demo_config start_state =
           bnd (persisted_session blind_env) (\<lambda>_. select_character_and_play blind_env)
             (start_state\<lparr>shots := Suc (shots start_state)\<rparr>)
       \<and> ((\<exists>e. main blind_env ''config.json'' start_state = (Inl e, start_state))
          \<or> (\<exists>k. main blind_env ''config.json'' start_state = (Inr 0, start_state\<lparr>searches := k\<rparr>))
          \<or> (\<exists>k. main blind_env ''config.json'' start_state = (Inr 1, start_state\<lparr>searches := k\<rparr>))
          \<or> (\<exists>k. main blind_env ''config.json'' start_state =
                 bnd (persisted_session blind_env) (\<lambda>_. select_character_and_play blind_env)
                   (start_state\<lparr>searches := k, shots := Suc (shots start_state)\<rparr>)))"
proof -
  have "snapshot (screen_at blind_env (shots start_state)) = None"
    by (simp add: blind_env_def demo_env_def)
  then show ?thesis by (rule capture_failure_takes_persisted_branch)
qed

text \<open>
  C6. On the full-login path, if the error page is detected on the capture taken after the
  account identifier was submitted, \<^verbatim>\<open>main\<close> returns 1 at once: the final state is the
  state after the submission with that one capture spent, so no password is typed, no
  second-factor step, character selection or play click is attempted.
\<close>

theorem error_page_aborts_login:
  assumes "sighting env ''i_understand_button.png'' MATCH_THRESHOLD (shots s) = Inr (Some m)"
    and "full_login_enter_email env config (s\<lparr>shots := Suc (shots s)\<rparr>) = (Inr password, s1)"
    and "sighting env ''error_login_cant_open_page.png'' MATCH_THRESHOLD (shots s1) = Inr (Some b)"
  shows "login_flow env config s = (Inr 1, s1\<lparr>shots := Suc (shots s1)\<rparr>)"
proof -
  obtain scr where scr: "snapshot (screen_at env (shots s)) = Some scr"
     "find_template env scr ''i_understand_button.png'' MATCH_THRESHOLD False = Inr (Some m)"
    using assms(1) unfolding sighting_def by (cases "snapshot (screen_at env (shots s))") auto
  obtain scr1 where scr1: "snapshot (screen_at env (shots s1)) = Some scr1"
     "find_template env scr1 ''error_login_cant_open_page.png'' MATCH_THRESHOLD False = Inr (Some b)"
    using assms(3) unfolding sighting_def by (cases "snapshot (screen_at env (shots s1))") auto
  have after: "full_login_after_email env config password s1 = (Inr (Some 1), s1\<lparr>shots := Suc (shots s1)\<rparr>)"
    unfolding full_login_after_email_def using scr1
    by (simp add: bnd_def take_screenshot_def lift_def ret_def)
  show ?thesis
    unfolding login_flow_def using scr assms(2) after
    by (simp add: bnd_def take_screenshot_def lift_def ret_def)
qed

lemma cv_total_demo: "cv_total demo_env"
  by (auto simp: cv_total_def demo_env_def)

lemma find_template_bounds:
  "find_template env screen name threshold True = Inr (Some m) \<Longrightarrow> \<exists>x y w h. m = Bounds x y w h"
  unfolding find_template_def by (auto split: if_splits option.splits simp: Let_def)

lemma emits_checkbox:
  assumes "cv_total env"
  shows "emits {} (\<lambda>ev. True)
     (case screen of
            None \<Rightarrow> ret ()
          | Some scr \<Rightarrow>
              bnd (lift (find_template env scr ''cloudflare_human_checkbox.png''
                           (MATCH_THRESHOLD * 0.75) True)) (\<lambda>bounds.
                case bounds of
                  None \<Rightarrow> ret ()
                | Some (Bounds x y w h) \<Rightarrow> click_random_within env x y w h
                | Some (Center x y) \<Rightarrow> throw ValueError))"
proof (cases screen)
  case None
  then show ?thesis by (simp add: emits_ret)
next
  case (Some scr)
  let ?r = "find_template env scr ''cloudflare_human_checkbox.png'' (MATCH_THRESHOLD * 0.75) True"
  obtain r where r: "?r = Inr r" using find_template_total[OF assms] by blast
  have "emits {} (\<lambda>ev. True) (case r of
                  None \<Rightarrow> ret ()
                | Some (Bounds x y w h) \<Rightarrow> click_random_within env x y w h
                | Some (Center x y) \<Rightarrow> throw ValueError)"
  proof (cases r)
    case None then show ?thesis by (simp add: emits_ret)
  next
    case (Some m)
    then obtain x y w h where "m = Bounds x y w h" using r find_template_bounds by blast
    then show ?thesis using Some by (simp add: emits_click_random_within)
  qed
  then have "emits {} (\<lambda>ev. True) (bnd (lift ?r) (\<lambda>bounds. case bounds of
                  None \<Rightarrow> ret ()
                | Some (Bounds x y w h) \<Rightarrow> click_random_within env x y w h
                | Some (Center x y) \<Rightarrow> throw ValueError))"
    unfolding r by (simp add: emits_def bnd_def lift_def)
  then show ?thesis using Some by simp
qed

lemma full_login_enter_email_total:
  assumes cv: "cv_total env" and u: "config ''username'' = Some (JStr email)"
    and p: "config ''password'' = Some password"
  shows "\<exists>s1. full_login_enter_email env config s = (Inr password, s1)"
proof -
  obtain r1 s1 where 1: "wait_and_click env ''i_understand_button.png'' 5 s = (Inr r1, s1)"
    using emits_total[OF emits_wait_and_click[of "\<lambda>ev. True" env "{}"]] cv by blast
  obtain r2 s2 where 2: "wait_and_click env ''login_button.png'' 10 s1 = (Inr r2, s2)"
    using emits_total[OF emits_wait_and_click[of "\<lambda>ev. True" env "{}"]] cv by blast
  obtain screen s3 where 3: "take_screenshot env s2 = (Inr screen, s3)"
    by (simp add: take_screenshot_def)
  obtain u4 s4 where 4: "(case screen of
            None \<Rightarrow> ret ()
          | Some scr \<Rightarrow>
              bnd (lift (find_template env scr ''cloudflare_human_checkbox.png''
                           (MATCH_THRESHOLD * 0.75) True)) (\<lambda>bounds.
                case bounds of
                  None \<Rightarrow> ret ()
                | Some (Bounds x y w h) \<Rightarrow> click_random_within env x y w h
                | Some (Center x y) \<Rightarrow> throw ValueError)) s3 = (Inr u4, s4)"
    using emits_total[OF emits_checkbox[OF cv]] by blast
  show ?thesis
    unfolding full_login_enter_email_def
    using 1 2 3 4 u p
    by (simp add: bnd_def lift_def subscript_def type_text_run press_key_def run_def ret_def)
qed

text \<open>The theorem in the example environment, where every template is detected.\<close>

theorem error_page_aborts_login_witness:
  "\<exists>s1. full_login_enter_email demo_env demo_config (start_state\<lparr>shots := Suc (shots start_state)\<rparr>)
           = (Inr (JStr ''pw''), s1)
      \<and> login_flow demo_env demo_config start_state = (Inr 1, s1\<lparr>shots := Suc (shots s1)\<rparr>)"
proof -
  have 1: "sighting demo_env ''i_understand_button.png'' MATCH_THRESHOLD (shots start_state)
            = Inr (Some (Center 31 10))"
    by (rule sighting_demo) simp
  obtain s1 where 2: "full_login_enter_email demo_env demo_config
       (start_state\<lparr>shots := Suc (shots start_state)\<rparr>) = (Inr (JStr ''pw''), s1)"
    using full_login_enter_email_total[OF cv_total_demo, of demo_config "''a@b.c''" "JStr ''pw''"]
    by (auto simp: demo_config_def)
  have 3: "sighting demo_env ''error_login_cant_open_page.png'' MATCH_THRESHOLD (shots s1)
            = Inr (Some (Center 31 10))"
    by (rule sighting_demo) simp
  show ?thesis using 2 error_page_aborts_login[OF 1 2 3] by blast
qed

section \<open>The post-launch flow\<close>

lemma bnd_returns:
  "(\<And>v s. \<forall>r. fst (f v s) = Inr r \<longrightarrow> r = c) \<Longrightarrow> fst (bnd m f s) = Inr r \<Longrightarrow> r = c"
  unfolding bnd_def by (auto split: prod.splits sum.splits)

lemma pl_main_returns: "fst (pl_main env s) = Inr r \<Longrightarrow> r = 0"
  unfolding pl_main_def
  apply (erule bnd_returns[rotated])
  apply (intro allI impI)
  apply (erule bnd_returns[rotated])
  apply (intro allI impI)
  apply (erule bnd_returns[rotated])
  apply (intro allI impI)
  apply (erule bnd_returns[rotated])
  apply (intro allI impI)
  apply (erule bnd_returns[rotated])
  apply (simp add: ret_def)
  done

text \<open>
  C10. \<^verbatim>\<open>main\<close> of \<^verbatim>\<open>post_launch.py\<close> returns 0 on every run that returns, whatever
  was detected or timed out; the only other outcome is an exception of OpenCV, and where
  OpenCV raises on no pair of images the result is 0.
\<close>

theorem post_launch_returns_zero:
  "(fst (pl_main env s) = Inr 0 \<or> fst (pl_main env s) = Inl CvError)
   \<and> (cv_total env \<longrightarrow> fst (pl_main env s) = Inr 0)"
proof -
  have a: "fst (pl_main env s) = Inl e \<Longrightarrow> e = CvError" for e
    using emits_pl_main[of env "{CvError}"] unfolding emits_def by auto
  have b: "cv_total env \<Longrightarrow> fst (pl_main env s) \<noteq> Inl e" for e
    using emits_pl_main[of env "{}"] unfolding emits_def by auto
  show ?thesis using a b pl_main_returns[of env s]
    by (cases "fst (pl_main env s)") auto
qed

text \<open>The theorem in the example environment.\<close>

theorem post_launch_returns_zero_witness: "cv_total demo_env \<and> fst (pl_main demo_env start_state) = Inr 0"
  using post_launch_returns_zero[of demo_env start_state] cv_total_demo by simp

end
